theory Spec2Isabelle
  imports Complex_Main
begin

section \<open>Strings\<close>

text \<open>
  A JavaScript string is a sequence of UTF-16 code units. The model takes \<open>string\<close>
  (a list of \<open>char\<close>) with each \<open>char\<close> standing for the code unit of the same
  number, so it covers the texts whose code units are below 256 (ASCII and Latin-1);
  \<open>length\<close> is then JavaScript's \<open>length\<close>.
\<close>

definition toLowerCase_char :: "char \<Rightarrow> char" where
  "toLowerCase_char c =
     (let n = (of_char c :: int)
      in if (65 \<le> n \<and> n \<le> 90) \<or> (192 \<le> n \<and> n \<le> 222 \<and> n \<noteq> 215)
         then char_of (n + 32) else c)"

definition toLowerCase :: "string \<Rightarrow> string" where
  "toLowerCase s = map toLowerCase_char s"

text \<open>
  \<open>trim\<close> removes white space and line terminators from both ends; below code unit
  256 these are tab, line feed, vertical tab, form feed, carriage return, space and the
  no-break space.
\<close>

definition isWhiteSpace :: "char \<Rightarrow> bool" where
  "isWhiteSpace c = ((of_char c :: int) \<in> {9, 10, 11, 12, 13, 32, 160})"

definition trim :: "string \<Rightarrow> string" where
  "trim s = rev (dropWhile isWhiteSpace (rev (dropWhile isWhiteSpace s)))"

definition startsWith :: "string \<Rightarrow> string \<Rightarrow> bool" where
  "startsWith s p = (take (length p) s = p)"

fun includes_str :: "string \<Rightarrow> string \<Rightarrow> bool" where
  "includes_str [] p = (p = [])"
| "includes_str (c # s) p = (startsWith (c # s) p \<or> includes_str s p)"

text \<open>
  \<open>s.split(sep)\<close> for a one-character separator: every occurrence of the separator
  ends a piece, so the result has one piece more than there are separators. The second
  argument holds the piece being read.
\<close>

fun split_char :: "char \<Rightarrow> string \<Rightarrow> string \<Rightarrow> string list" where
  "split_char sep piece [] = [piece]"
| "split_char sep piece (c # s) =
     (if c = sep then piece # split_char sep [] s else split_char sep (piece @ [c]) s)"

text \<open>
  \<open>s.split(/[.!?]+/)\<close>: a maximal run of sentence marks ends a piece; a run at the
  start or the end of the string leaves an empty first or last piece, and the empty
  string gives one empty piece. The flag says that the previous character was a mark
  of the current run.
\<close>

definition isSentenceMark :: "char \<Rightarrow> bool" where
  "isSentenceMark c = (c = CHR ''.'' \<or> c = CHR ''!'' \<or> c = CHR ''?'')"

fun split_marks :: "bool \<Rightarrow> string \<Rightarrow> string \<Rightarrow> string list" where
  "split_marks in_run piece [] = [piece]"
| "split_marks in_run piece (c # s) =
     (if isSentenceMark c
      then (if in_run then split_marks True [] s else piece # split_marks True [] s)
      else split_marks False (piece @ [c]) s)"

definition split_sentences :: "string \<Rightarrow> string list" where
  "split_sentences s = split_marks False [] s"

text \<open>The decimal digits of a natural number: \<open>n.toString()\<close> and \<open>`${n}`\<close>.\<close>

fun toString_nat :: "nat \<Rightarrow> string" where
  "toString_nat n =
     (if n < 10 then [char_of (48 + n)]
      else toString_nat (n div 10) @ [char_of (48 + n mod 10)])"

declare toString_nat.simps [simp del]

section \<open>SimilarityScorer (VoiceUI: levenshteinDistance, calculateSimilarity)\<close>

text \<open>
  \<open>array_set xs i v\<close> is the assignment \<open>xs[i] = v\<close> on a JavaScript array: inside
  the array it overwrites, at the end it appends, and beyond the end the array grows
  with holes, whose content is unspecified here.
\<close>

definition array_set :: "'a list \<Rightarrow> nat \<Rightarrow> 'a \<Rightarrow> 'a list" where
  "array_set xs i v =
     (if i < length xs then xs[i := v]
      else xs @ replicate (i - length xs) undefined @ [v])"

text \<open>The body of the inner loop: the value stored in \<open>matrix[i][j]\<close>.\<close>

definition lev_cell :: "string \<Rightarrow> string \<Rightarrow> nat list list \<Rightarrow> nat \<Rightarrow> nat \<Rightarrow> nat" where
  "lev_cell a b matrix i j =
     (let cost = (if a ! (j - 1) = b ! (i - 1) then 0 else 1)
      in min (min (matrix ! (i - 1) ! j + 1)
                  (matrix ! i ! (j - 1) + 1))
             (matrix ! (i - 1) ! (j - 1) + cost))"

definition lev_init_rows :: "string \<Rightarrow> nat list list" where
  "lev_init_rows b = fold (\<lambda>i matrix. array_set matrix i [i]) [0..<Suc (length b)] []"

definition lev_init_cols :: "string \<Rightarrow> nat list list \<Rightarrow> nat list list" where
  "lev_init_cols a matrix0 =
     fold (\<lambda>j matrix. array_set matrix 0 (array_set (matrix ! 0) j j))
          [0..<Suc (length a)] matrix0"

definition lev_fill_row :: "string \<Rightarrow> string \<Rightarrow> nat \<Rightarrow> nat \<Rightarrow> nat list list \<Rightarrow> nat list list" where
  "lev_fill_row a b n i matrix0 =
     fold (\<lambda>j matrix. array_set matrix i (array_set (matrix ! i) j (lev_cell a b matrix i j)))
          [1..<Suc n] matrix0"

definition lev_fill :: "string \<Rightarrow> string \<Rightarrow> nat \<Rightarrow> nat list list \<Rightarrow> nat list list" where
  "lev_fill a b k matrix0 =
     fold (\<lambda>i matrix. lev_fill_row a b (length a) i matrix) [1..<Suc k] matrix0"

definition levenshteinDistance :: "string \<Rightarrow> string \<Rightarrow> nat" where
  "levenshteinDistance a b =
     lev_fill a b (length b) (lev_init_cols a (lev_init_rows b)) ! length b ! length a"

definition calculateSimilarity :: "string \<Rightarrow> string \<Rightarrow> real" where
  "calculateSimilarity a b =
     (let maxLength = max (length a) (length b)
      in if maxLength = 0 then 1
         else 1 - real (levenshteinDistance (toLowerCase a) (toLowerCase b)) / real maxLength)"

definition areSimilarQuestions :: "string \<Rightarrow> string \<Rightarrow> bool" where
  "areSimilarQuestions q1 q2 = (calculateSimilarity q1 q2 > 0.8)"

text \<open>
  The table the loops fill, written as a recurrence: \<open>lev_table a b i j\<close> is the
  content of \<open>matrix[i][j]\<close>, the distance between the first \<open>j\<close> characters of
  \<open>a\<close> and the first \<open>i\<close> characters of \<open>b\<close>.
\<close>

fun lev_table :: "string \<Rightarrow> string \<Rightarrow> nat \<Rightarrow> nat \<Rightarrow> nat" where
  "lev_table a b 0 j = j"
| "lev_table a b (Suc i) 0 = Suc i"
| "lev_table a b (Suc i) (Suc j) =
     min (min (lev_table a b i (Suc j) + 1) (lev_table a b (Suc i) j + 1))
         (lev_table a b i j + (if a ! j = b ! i then 0 else 1))"

section \<open>QuestionExtractor (VoiceUI: extractQuestions, mightBeConversationalQuery)\<close>

definition questionIndicators :: "string list" where
  "questionIndicators =
     [''how'', ''what'', ''why'', ''when'', ''where'', ''which'', ''who'', ''whose'', ''whom'',
      ''can'', ''could'', ''would'', ''should'', ''is'', ''are'', ''am'', ''was'', ''were'',
      ''do'', ''does'', ''did'', ''has'', ''have'', ''had'', ''will'', ''shall'',
      ''tell me'', ''explain'', ''describe'', ''show me'', ''help me understand'']"

text \<open>
  The body of the loop over the sentences: what one sentence pushes onto \<open>result\<close>.
  The inner loop over the indicators pushes the sentence once, at the first indicator
  that fits, and stops.
\<close>

definition sentence_questions :: "string \<Rightarrow> string \<Rightarrow> string list" where
  "sentence_questions text0 sentence =
     (let trimmed = trim sentence
      in if length trimmed < 3 then []
         else if includes_str text0 (trimmed @ ''?'') then [trimmed @ ''?'']
         else let lowerSentence = toLowerCase trimmed
              in if list_ex (\<lambda>indicator. startsWith lowerSentence indicator \<or>
                                 includes_str lowerSentence ('' '' @ indicator @ '' ''))
                      questionIndicators
                 then [trimmed] else [])"

definition extractQuestions :: "string \<Rightarrow> string list" where
  "extractQuestions text0 =
     (let sentences = filter (\<lambda>s. length (trim s) > 0) (split_sentences text0);
          result = concat (map (sentence_questions text0) sentences)
      in if result = [] \<and> length (trim text0) > 0 \<and> length (trim text0) < 150
         then [trim text0] else result)"

definition conversationalPatterns :: "string list" where
  "conversationalPatterns =
     [''tell me'', ''explain'', ''describe'', ''show me'', ''help me'',
      ''i need'', ''i want'', ''give me'', ''can you'', ''please'',
      ''how do'', ''what is'', ''what are'', ''why is'', ''why are'']"

definition mightBeConversationalQuery :: "string \<Rightarrow> bool" where
  "mightBeConversationalQuery text0 =
     (let lowerText = trim (toLowerCase text0)
      in list_ex (\<lambda>pattern. includes_str lowerText pattern) conversationalPatterns)"

section \<open>Regular expressions of the detector\<close>

text \<open>
  The detector's regular expressions use four constructs only: literal text, a group of
  literal alternatives \<open>(?:a|b|c)\<close>, the word boundary \<open>\b\<close> and the end anchor
  \<open>$\<close>; all carry the flag \<open>i\<close>. A pattern is the list of its items.
  With the flag \<open>i\<close> two characters match when their upper-case forms agree; every
  pattern character is ASCII, and a character from 128 on never folds to an ASCII one,
  so folding the ASCII letters decides each comparison.
\<close>

datatype rx = Lit string | Alt "string list" | WordBoundary | EndOfInput

definition rx_canon :: "char \<Rightarrow> char" where
  "rx_canon c =
     (let n = (of_char c :: int) in if 97 \<le> n \<and> n \<le> 122 then char_of (n - 32) else c)"

definition isWordChar :: "char \<Rightarrow> bool" where
  "isWordChar c =
     (let n = (of_char c :: int)
      in (48 \<le> n \<and> n \<le> 57) \<or> (65 \<le> n \<and> n \<le> 90) \<or> n = 95 \<or> (97 \<le> n \<and> n \<le> 122))"

text \<open>
  A position in the input is the character before it (if any) and the text from it on.
  \<open>rx_lit\<close> matches a literal at a position and gives the position after it.
\<close>

fun rx_lit :: "string \<Rightarrow> char option \<Rightarrow> string \<Rightarrow> (char option \<times> string) option" where
  "rx_lit [] before s = Some (before, s)"
| "rx_lit (p # w) before [] = None"
| "rx_lit (p # w) before (c # s) =
     (if rx_canon c = rx_canon p then rx_lit w (Some c) s else None)"

definition rx_boundary :: "char option \<Rightarrow> string \<Rightarrow> bool" where
  "rx_boundary before s =
     ((case before of None \<Rightarrow> False | Some c \<Rightarrow> isWordChar c)
      \<noteq> (case s of [] \<Rightarrow> False | c # _ \<Rightarrow> isWordChar c))"

text \<open>
  \<open>rx_match\<close>: the items match at this position, one after the other; an
  alternative that fits but leaves the rest unmatched gives way to the next one.
\<close>

fun rx_match :: "rx list \<Rightarrow> char option \<Rightarrow> string \<Rightarrow> bool" where
  "rx_match [] before s = True"
| "rx_match (Lit w # items) before s =
     (case rx_lit w before s of None \<Rightarrow> False
      | Some (before', s') \<Rightarrow> rx_match items before' s')"
| "rx_match (Alt ws # items) before s =
     list_ex (\<lambda>w. case rx_lit w before s of None \<Rightarrow> False
                    | Some (before', s') \<Rightarrow> rx_match items before' s') ws"
| "rx_match (WordBoundary # items) before s = (rx_boundary before s \<and> rx_match items before s)"
| "rx_match (EndOfInput # items) before s = (s = [] \<and> rx_match items before s)"

text \<open>\<open>pattern.test(text)\<close>: the pattern matches at some position of the text.\<close>

fun rx_search :: "rx list \<Rightarrow> char option \<Rightarrow> string \<Rightarrow> bool" where
  "rx_search items before [] = rx_match items before []"
| "rx_search items before (c # s) = (rx_match items before (c # s) \<or> rx_search items (Some c) s)"

definition rx_test :: "rx list \<Rightarrow> string \<Rightarrow> bool" where
  "rx_test items s = rx_search items None s"

section \<open>DomainClassifier (TechnicalQuestionDetector)\<close>

text \<open>
  Numbers of the detector are modelled as real numbers: the confidence values the code
  can produce are sums of a few constants, compared against thresholds they do not
  come close to.
\<close>

datatype TechnicalDomain =
  Programming | DevOps | Database | Networking | Security | WebDevelopment
  | MobileDevelopment | DataScience | ArtificialIntelligence | General

record DetectionResult =
  isTechnical :: bool
  confidence :: real
  category :: "TechnicalDomain option"
  detectedKeywords :: "string list"

text \<open>The keyword table, in the order of the object literal (the order \<open>Object.values\<close>
  and \<open>Object.entries\<close> go through it).\<close>

definition technicalKeywords :: "(TechnicalDomain \<times> string list) list" where
  "technicalKeywords =
     [
      (Programming,
        [''function'', ''method'', ''class'', ''object'', ''variable'', ''loop'',
         ''array'', ''algorithm'', ''runtime'', ''compile'', ''debug'', ''error'',
         ''exception'', ''syntax'', ''javascript'', ''python'', ''java'', ''c#'',
         ''typescript'', ''ruby'', ''rust'', ''go'', ''php'', ''swift'', ''kotlin'',
         ''code'', ''compiler'', ''interpreter'', ''recursion'', ''iteration'',
         ''inheritance'', ''polymorphism'', ''encapsulation'', ''data structure'',
         ''framework'', ''library'', ''api'', ''sdk'', ''lint'', ''import'']),
      (DevOps,
        [''ci/cd'', ''pipeline'', ''jenkins'', ''docker'', ''kubernetes'', ''container'',
         ''orchestration'', ''deployment'', ''automation'', ''infrastructure'',
         ''terraform'', ''ansible'', ''chef'', ''puppet'', ''aws'', ''azure'', ''gcp'',
         ''cloud'', ''microservice'', ''serverless'', ''lambda'',
         ''function-as-a-service'', ''iaas'', ''paas'', ''saas'', ''devops'', ''sre'',
         ''gitlab'', ''github actions'', ''circle ci'']),
      (Database,
        [''database'', ''sql'', ''nosql'', ''query'', ''index'', ''relational'', ''mongo'',
         ''postgresql'', ''mysql'', ''oracle'', ''sqlite'', ''join'', ''transaction'',
         ''acid'', ''normalization'', ''denormalization'', ''schema'', ''table'',
         ''column'', ''row'', ''primary key'', ''foreign key'', ''couchbase'',
         ''cassandra'', ''redis'', ''memcached'']),
      (Networking,
        [''network'', ''tcp/ip'', ''http'', ''https'', ''dns'', ''ip address'', ''subnet'',
         ''gateway'', ''routing'', ''firewall'', ''vpn'', ''proxy'', ''load balancer'',
         ''cdn'', ''latency'', ''bandwidth'', ''packet'', ''protocol'', ''socket'',
         ''port'', ''nat'']),
      (Security,
        [''security'', ''encryption'', ''authentication'', ''authorization'', ''oauth'',
         ''jwt'', ''certificate'', ''vulnerability'', ''exploit'', ''penetration test'',
         ''firewall'', ''csrf'', ''xss'', ''sql injection'', ''hash'', ''salt'', ''cipher'']),
      (WebDevelopment,
        [''html'', ''css'', ''javascript'', ''dom'', ''react'', ''angular'', ''vue'',
         ''svelte'', ''webpack'', ''babel'', ''responsive'', ''spa'', ''pwa'',
         ''web component'', ''sass'', ''less'', ''bootstrap'', ''tailwind'', ''ajax'',
         ''fetch'', ''restful'', ''graphql'', ''browser'', ''render'', ''accessibility'',
         ''a11y'', ''cors'', ''frontend'', ''backend'']),
      (MobileDevelopment,
        [''android'', ''ios'', ''swift'', ''kotlin'', ''react native'', ''flutter'',
         ''mobile'', ''app store'', ''play store'', ''notification'', ''responsive'',
         ''touch'', ''gesture'', ''xcode'', ''android studio'', ''emulator'', ''simulator'']),
      (DataScience,
        [''data science'', ''machine learning'', ''statistics'', ''regression'',
         ''classification'', ''clustering'', ''neural network'', ''pandas'', ''numpy'',
         ''scipy'', ''matplotlib'', ''jupyter'', ''kaggle'', ''feature'', ''dataset'',
         ''model'', ''train'', ''test'', ''validate'', ''accuracy'', ''precision'',
         ''recall'', ''f1 score'', ''r squared'', ''visualization'']),
      (ArtificialIntelligence,
        [''ai'', ''artificial intelligence'', ''machine learning'', ''deep learning'',
         ''neural network'', ''nlp'', ''natural language processing'', ''computer vision'',
         ''reinforcement learning'', ''supervised'', ''unsupervised'', ''tensorflow'',
         ''pytorch'', ''keras'', ''transformers'', ''gpt'', ''bert'', ''llm'',
         ''large language model'', ''embedding'', ''tokens'', ''fine-tuning'',
         ''prompt engineering'', ''rlhf'', ''diffusion model'']),
      (General,
        [''technical'', ''technology'', ''system'', ''architecture'', ''design pattern'',
         ''best practice'', ''implementation'', ''integration'', ''configuration'',
         ''setup'', ''install'', ''uninstall'', ''update'', ''upgrade'', ''downgrade'',
         ''compatibility'', ''performance'', ''optimization'', ''bottleneck'',
         ''scalability'', ''maintenance''])     ]"

definition questionPatterns :: "rx list list" where
  "questionPatterns =
     [[Lit ''how '', Alt [''do'', ''can'', ''would'', ''should''], Lit '' I''],
      [Lit ''how '', Alt [''to'', ''do you'']],
      [Lit ''what '', Alt [''is'', ''are'', ''does'']],
      [Lit ''why '', Alt [''does'', ''is'', ''are'', ''do'']],
      [Lit ''can you explain''],
      [Lit ''could you '', Alt [''help'', ''tell'', ''explain'', ''describe'']],
      [Lit ''difference between''],
      [Lit ''when '', Alt [''should'', ''would'', ''do'']],
      [Lit ''where '', Alt [''can'', ''should'', ''do'']],
      [Lit ''?'', EndOfInput]]"

definition hasQuestionPattern :: "string \<Rightarrow> bool" where
  "hasQuestionPattern text0 = list_ex (\<lambda>pattern. rx_test pattern text0) questionPatterns"

text \<open>
  \<open>new RegExp(`\\b${keyword}\\b`, 'i')\<close>: the keyword is pasted into the pattern
  unescaped; no keyword of the table holds a character that is special in a regular
  expression (lemma \<open>keywords_literal\<close>), so each stands for itself.
\<close>

definition keyword_regex :: "string \<Rightarrow> rx list" where
  "keyword_regex keyword = [WordBoundary, Lit keyword, WordBoundary]"

definition rx_special :: "char \<Rightarrow> bool" where
  "rx_special c = (c \<in> set (CHR 0x5C # ''^$.|?*+()[]{}''))"

definition findTechnicalKeywords :: "string \<Rightarrow> string list" where
  "findTechnicalKeywords text0 =
     fold (\<lambda>keywords matches.
             fold (\<lambda>keyword matches.
                     if rx_test (keyword_regex keyword) text0 \<and> keyword \<notin> set matches
                     then matches @ [keyword] else matches)
                  keywords matches)
          (map snd technicalKeywords) []"

definition determineTechnicalDomain :: "string list \<Rightarrow> TechnicalDomain \<times> nat" where
  "determineTechnicalDomain keywords =
     (if length keywords = 0 then (General, 0)
      else
        let domainCounts =
              map (\<lambda>(domain, domainKeywords).
                     (domain, length (filter (\<lambda>keyword. toLowerCase keyword \<in> set domainKeywords)
                                             keywords)))
                  technicalKeywords;
            (maxCount, topDomain) =
              fold (\<lambda>(domain, count) (maxCount, topDomain).
                      if count > maxCount then (count, domain) else (maxCount, topDomain))
                   domainCounts (0, General)
        in (topDomain, length keywords))"

definition calculateConfidence :: "bool \<Rightarrow> nat \<Rightarrow> nat \<Rightarrow> real" where
  "calculateConfidence isQuestionLike keywordCount textLength =
     (let confidence0 = (if isQuestionLike then 0.5 else 0.2);
          confidence1 = (if textLength > 0
                         then confidence0 + min (real keywordCount * 0.15) 0.45
                         else confidence0)
      in min confidence1 0.95)"

definition detectTechnicalQuestion :: "string \<Rightarrow> DetectionResult" where
  "detectTechnicalQuestion text0 =
     (let cleanText = toLowerCase (trim text0);
          isQuestionLike = hasQuestionPattern cleanText;
          keywordMatches = findTechnicalKeywords cleanText;
          (category0, keywordCount) = determineTechnicalDomain keywordMatches;
          confidence0 = calculateConfidence isQuestionLike keywordCount (length cleanText);
          isTechnical0 = (confidence0 > 0.6)
      in \<lparr> isTechnical = isTechnical0,
           confidence = confidence0,
           category = (if isTechnical0 then Some category0 else None),
           detectedKeywords = keywordMatches \<rparr>)"

section \<open>QuestionRegistry and TranscriptSegmenter (VoiceUI)\<close>

text \<open>
  \<open>toString_nat now\<close> is \<open>Date.now().toString()\<close>: the clock reading in milliseconds,
  an input of the model together with the display string of
  \<open>new Date().toLocaleTimeString()\<close>. The fields of \<open>TechnicalQuestion\<close> carry the
  prefix \<open>q_\<close>.
\<close>

record TechnicalQuestion =
  q_id :: string
  q_text :: string
  q_timestamp :: string
  q_category :: "TechnicalDomain option"
  q_confidence :: real

definition createTechnicalQuestion :: "nat \<times> string \<Rightarrow> string \<Rightarrow> TechnicalQuestion option" where
  "createTechnicalQuestion clock text0 =
     (let detectionResult = detectTechnicalQuestion text0
      in if \<not> isTechnical detectionResult then None
         else Some \<lparr> q_id = toString_nat (fst clock),
                     q_text = trim text0,
                     q_timestamp = snd clock,
                     q_category = category detectionResult,
                     q_confidence = confidence detectionResult \<rparr>)"

record ProcessedSegment =
  seg_text :: string
  seg_timestamp :: nat

text \<open>The state of the component that the pipeline reads and writes.\<close>

record VoiceUI =
  detectedQuestions :: "TechnicalQuestion list"
  currentQuestionIndex :: int
  processedSegments :: "ProcessedSegment list"

definition initial :: VoiceUI where
  "initial = \<lparr> detectedQuestions = [], currentQuestionIndex = - 1, processedSegments = [] \<rparr>"

text \<open>
  \<open>analyzeQuestion\<close>: the state updater passed to \<open>setDetectedQuestions\<close> runs on
  the current list; it returns the list unchanged for a duplicate, and otherwise
  appends the question and selects it.
\<close>

definition analyzeQuestion :: "nat \<times> string \<Rightarrow> string \<Rightarrow> VoiceUI \<Rightarrow> VoiceUI" where
  "analyzeQuestion clock questionText st =
     (case createTechnicalQuestion clock questionText of
        None \<Rightarrow> st
      | Some question \<Rightarrow>
          let prev = detectedQuestions st;
              isDuplicate = list_ex (\<lambda>q. areSimilarQuestions (q_text q) (q_text question)) prev
          in if isDuplicate then st
             else let newQuestions = prev @ [question]
                  in st \<lparr> detectedQuestions := newQuestions,
                          currentQuestionIndex := int (length newQuestions) - 1 \<rparr>)"

definition isSegmentProcessed :: "ProcessedSegment list \<Rightarrow> string \<Rightarrow> bool" where
  "isSegmentProcessed segments segment =
     list_ex (\<lambda>item. calculateSimilarity (seg_text item) segment > 0.8) segments"

text \<open>
  \<open>processNewSpeechSegment\<close>. \<open>seen\<close> is the list \<open>processedSegments\<close> as the
  handler's closure holds it; \<open>segNow\<close> is the clock reading stored with the segment,
  and \<open>clock k\<close> the reading taken for the \<open>k\<close>-th extracted question.
\<close>

definition processNewSpeechSegment ::
    "ProcessedSegment list \<Rightarrow> nat \<Rightarrow> (nat \<Rightarrow> nat \<times> string) \<Rightarrow> string \<Rightarrow> VoiceUI \<Rightarrow> VoiceUI" where
  "processNewSpeechSegment seen segNow clock segment st =
     (if isSegmentProcessed seen segment then st
      else
        let st1 = st \<lparr> processedSegments :=
                         processedSegments st @ [\<lparr> seg_text = segment, seg_timestamp = segNow \<rparr>] \<rparr>;
            questions = extractQuestions segment
        in if length questions = 0 \<and> length segment > 5
           then (if mightBeConversationalQuery segment
                 then analyzeQuestion (clock 0) segment st1 else st1)
           else fold (\<lambda>(k, questionText) st'.
                        if length questionText > 5
                        then analyzeQuestion (clock k) questionText st' else st')
                     (enumerate 0 questions) st1)"

definition clearTranscript :: "VoiceUI \<Rightarrow> VoiceUI" where
  "clearTranscript st = st \<lparr> processedSegments := [] \<rparr>"

definition clearQuestions :: "VoiceUI \<Rightarrow> VoiceUI" where
  "clearQuestions st = st \<lparr> detectedQuestions := [], currentQuestionIndex := - 1 \<rparr>"

definition clearAll :: "VoiceUI \<Rightarrow> VoiceUI" where
  "clearAll st = clearQuestions (clearTranscript st)"

definition selectQuestion :: "int \<Rightarrow> VoiceUI \<Rightarrow> VoiceUI" where
  "selectQuestion index st = st \<lparr> currentQuestionIndex := index \<rparr>"

text \<open>
  The guard of the selected-question panel: the question the view shows as selected,
  if any.
\<close>

definition selectedQuestion :: "VoiceUI \<Rightarrow> TechnicalQuestion option" where
  "selectedQuestion st =
     (if currentQuestionIndex st \<ge> 0 \<and> currentQuestionIndex st < int (length (detectedQuestions st))
      then Some (detectedQuestions st ! nat (currentQuestionIndex st)) else None)"

text \<open>The events that change the state, and a run of the component over a list of them.\<close>

datatype event =
  FinalSegment "ProcessedSegment list" nat "nat \<Rightarrow> nat \<times> string" string
  | AnalyzeQuestion "nat \<times> string" string
  | SelectQuestion int
  | ClearTranscript
  | ClearQuestions
  | ClearAll

fun step :: "event \<Rightarrow> VoiceUI \<Rightarrow> VoiceUI" where
  "step (FinalSegment seen segNow clock segment) st =
     processNewSpeechSegment seen segNow clock segment st"
| "step (AnalyzeQuestion clock questionText) st = analyzeQuestion clock questionText st"
| "step (SelectQuestion index) st = selectQuestion index st"
| "step ClearTranscript st = clearTranscript st"
| "step ClearQuestions st = clearQuestions st"
| "step ClearAll st = clearAll st"

definition run :: "event list \<Rightarrow> VoiceUI \<Rightarrow> VoiceUI" where
  "run events st = fold step events st"

text \<open>
  The registry invariant in list form: no entry is similar to an entry after it.
\<close>

definition registry_ok :: "TechnicalQuestion list \<Rightarrow> bool" where
  "registry_ok qs = sorted_wrt (\<lambda>q1 q2. \<not> areSimilarQuestions (q_text q1) (q_text q2)) qs"

section \<open>JSON.parse\<close>

text \<open>
  \<open>JSON.parse\<close> is the platform's; it is modelled after the JSON grammar (ECMA-404): a
  lexer into tokens, and a parser that reads the tokens with a stack of the arrays and
  objects that are open. \<open>None\<close> is the \<open>SyntaxError\<close> it throws. A number is kept
  as its lexeme. A \<open>u\<close> escape above code unit 255 names a code unit outside the model's
  alphabet, and the model rejects it.
\<close>

datatype json =
  JNull | JBool bool | JNumber string | JString string
  | JArray "json list" | JObject "(string \<times> json) list"

datatype token =
  TLBrace | TRBrace | TLBracket | TRBracket | TColon | TComma
  | TString string | TNumber string | TTrue | TFalse | TNull

definition isJsonSpace :: "char \<Rightarrow> bool" where
  "isJsonSpace c = ((of_char c :: int) \<in> {9, 10, 13, 32})"

definition isDigit :: "char \<Rightarrow> bool" where
  "isDigit c = (let n = (of_char c :: int) in 48 \<le> n \<and> n \<le> 57)"

definition isHexDigit :: "char \<Rightarrow> bool" where
  "isHexDigit c =
     (let n = (of_char c :: int)
      in (48 \<le> n \<and> n \<le> 57) \<or> (65 \<le> n \<and> n \<le> 70) \<or> (97 \<le> n \<and> n \<le> 102))"

definition hex_digit :: "char \<Rightarrow> int" where
  "hex_digit c =
     (let n = (of_char c :: int)
      in if n \<le> 57 then n - 48 else if n \<le> 70 then n - 55 else n - 87)"

definition unicode_escape :: "string \<Rightarrow> char option" where
  "unicode_escape hs =
     (if length hs = 4 \<and> list_all isHexDigit hs
      then (let n = fold (\<lambda>h n. 16 * n + hex_digit h) hs 0
            in if n < 256 then Some (char_of n) else None)
      else None)"

definition simple_escape :: "char \<Rightarrow> char option" where
  "simple_escape e =
     (if e = CHR 0x22 \<or> e = CHR 0x5C \<or> e = CHR ''/'' then Some e
      else if e = CHR ''b'' then Some (CHR 0x08)
      else if e = CHR ''f'' then Some (CHR 0x0C)
      else if e = CHR ''n'' then Some (CHR 0x0A)
      else if e = CHR ''r'' then Some (CHR 0x0D)
      else if e = CHR ''t'' then Some (CHR 0x09)
      else None)"

text \<open>
  \<open>lex_string\<close> reads a string literal from behind its opening quote: the decoded
  characters and the input after the closing quote.
\<close>

fun lex_string :: "string \<Rightarrow> string \<Rightarrow> (string \<times> string) option" where
  "lex_string acc [] = None"
| "lex_string acc (c # s) =
     (if c = CHR 0x22 then Some (acc, s)
      else if c = CHR 0x5C then
        (case s of
           [] \<Rightarrow> None
         | e # s' \<Rightarrow>
             if e = CHR ''u'' then
               (case unicode_escape (take 4 s') of
                  None \<Rightarrow> None
                | Some ch \<Rightarrow> lex_string (acc @ [ch]) (drop 4 s'))
             else
               (case simple_escape e of
                  None \<Rightarrow> None
                | Some ch \<Rightarrow> lex_string (acc @ [ch]) s'))
      else if (of_char c :: int) < 32 then None
      else lex_string (acc @ [c]) s)"

lemma lex_string_shorter: "lex_string acc s = Some (str, rest) \<Longrightarrow> length rest < length s"
proof (induction acc s rule: lex_string.induct)
  case (1 acc)
  then show ?case by simp
next
  case (2 acc c s)
  show ?case
  proof (cases "c = CHR 0x22")
    case True
    with "2.prems" show ?thesis by simp
  next
    case q: False
    show ?thesis
    proof (cases "c = CHR 0x5C")
      case False
      with q "2.prems" "2.IH"(3) show ?thesis
        by (auto split: if_splits)
    next
      case b: True
      show ?thesis
      proof (cases s)
        case Nil
        with q b "2.prems" show ?thesis by simp
      next
        case (Cons e s')
        show ?thesis
        proof (cases "e = CHR ''u''")
          case True
          then obtain ch where ch: "unicode_escape (take 4 s') = Some ch"
            and r: "lex_string (acc @ [ch]) (drop 4 s') = Some (str, rest)"
            using q b Cons "2.prems" by (auto split: option.splits)
          from "2.IH"(1)[OF q b Cons True ch r] show ?thesis
            using Cons by simp
        next
          case False
          then obtain ch where ch: "simple_escape e = Some ch"
            and r: "lex_string (acc @ [ch]) s' = Some (str, rest)"
            using q b Cons "2.prems" by (auto split: option.splits)
          from "2.IH"(2)[OF q b Cons False ch r] show ?thesis
            using Cons by simp
        qed
      qed
    qed
  qed
qed

text \<open>
  A number: an optional minus, an integer part without a leading zero, an optional
  fraction and an optional exponent.
\<close>

definition isNumberChar :: "char \<Rightarrow> bool" where
  "isNumberChar c = (isDigit c \<or> c \<in> set ''+-.eE'')"

definition valid_exponent :: "string \<Rightarrow> bool" where
  "valid_exponent s =
     (case s of
        [] \<Rightarrow> True
      | c # r \<Rightarrow>
          (c = CHR ''e'' \<or> c = CHR ''E'') \<and>
          (let ds = (case r of [] \<Rightarrow> []
                     | sign # r' \<Rightarrow> if sign = CHR ''+'' \<or> sign = CHR ''-'' then r' else r)
           in ds \<noteq> [] \<and> list_all isDigit ds))"

definition valid_fraction :: "string \<Rightarrow> bool" where
  "valid_fraction s =
     (case s of
        [] \<Rightarrow> True
      | c # r \<Rightarrow>
          if c = CHR ''.''
          then takeWhile isDigit r \<noteq> [] \<and> valid_exponent (dropWhile isDigit r)
          else valid_exponent s)"

definition valid_number :: "string \<Rightarrow> bool" where
  "valid_number s =
     (case (case s of [] \<Rightarrow> [] | c # r \<Rightarrow> if c = CHR ''-'' then r else s) of
        [] \<Rightarrow> False
      | d # r \<Rightarrow>
          if d = CHR ''0'' then valid_fraction r
          else isDigit d \<and> valid_fraction (dropWhile isDigit r))"

function lex :: "string \<Rightarrow> token list option" where
  "lex [] = Some []"
| "lex (c # s) =
     (if isJsonSpace c then lex s
      else if c = CHR ''{'' then map_option ((#) TLBrace) (lex s)
      else if c = CHR ''}'' then map_option ((#) TRBrace) (lex s)
      else if c = CHR ''['' then map_option ((#) TLBracket) (lex s)
      else if c = CHR '']'' then map_option ((#) TRBracket) (lex s)
      else if c = CHR '':'' then map_option ((#) TColon) (lex s)
      else if c = CHR '','' then map_option ((#) TComma) (lex s)
      else if c = CHR 0x22 then
        (case lex_string [] s of
           None \<Rightarrow> None
         | Some (str, rest) \<Rightarrow> map_option ((#) (TString str)) (lex rest))
      else if startsWith (c # s) ''true'' then map_option ((#) TTrue) (lex (drop 3 s))
      else if startsWith (c # s) ''false'' then map_option ((#) TFalse) (lex (drop 4 s))
      else if startsWith (c # s) ''null'' then map_option ((#) TNull) (lex (drop 3 s))
      else if isNumberChar c then
        (if valid_number (c # takeWhile isNumberChar s)
         then map_option ((#) (TNumber (c # takeWhile isNumberChar s)))
                (lex (dropWhile isNumberChar s))
         else None)
      else None)"
  by pat_completeness auto
termination
  by (relation "measure length")
     (auto simp: lex_string_shorter less_Suc_eq_le length_dropWhile_le intro: less_imp_le)

text \<open>
  The parser. A frame is an open array with its elements so far, or an open object
  with its members so far and the key whose value is being read. \<open>expect\<close> says what
  may come next.
\<close>

datatype frame = ArrayFrame "json list" | ObjectFrame "(string \<times> json) list" string

datatype expect =
  Value | ValueOrEnd | KeyOrEnd | Key | Colon | CommaOrEnd | Finished json

fun put_value :: "json \<Rightarrow> frame list \<Rightarrow> expect \<times> frame list" where
  "put_value v [] = (Finished v, [])"
| "put_value v (ArrayFrame vs # frames) = (CommaOrEnd, ArrayFrame (vs @ [v]) # frames)"
| "put_value v (ObjectFrame members key # frames) =
     (CommaOrEnd, ObjectFrame (members @ [(key, v)]) [] # frames)"

fun start_value :: "token \<Rightarrow> frame list \<Rightarrow> (expect \<times> frame list) option" where
  "start_value (TString s) frames = Some (put_value (JString s) frames)"
| "start_value (TNumber lexeme) frames = Some (put_value (JNumber lexeme) frames)"
| "start_value TTrue frames = Some (put_value (JBool True) frames)"
| "start_value TFalse frames = Some (put_value (JBool False) frames)"
| "start_value TNull frames = Some (put_value JNull frames)"
| "start_value TLBracket frames = Some (ValueOrEnd, ArrayFrame [] # frames)"
| "start_value TLBrace frames = Some (KeyOrEnd, ObjectFrame [] [] # frames)"
| "start_value _ frames = None"

fun start_member :: "token \<Rightarrow> frame list \<Rightarrow> (expect \<times> frame list) option" where
  "start_member (TString key) (ObjectFrame members _ # frames) =
     Some (Colon, ObjectFrame members key # frames)"
| "start_member _ _ = None"

fun close_frame :: "token \<Rightarrow> frame list \<Rightarrow> (expect \<times> frame list) option" where
  "close_frame TRBracket (ArrayFrame vs # frames) = Some (put_value (JArray vs) frames)"
| "close_frame TRBrace (ObjectFrame members _ # frames) = Some (put_value (JObject members) frames)"
| "close_frame _ _ = None"

fun parse_token :: "token \<Rightarrow> expect \<times> frame list \<Rightarrow> (expect \<times> frame list) option" where
  "parse_token tok (Value, frames) = start_value tok frames"
| "parse_token tok (ValueOrEnd, frames) =
     (if tok = TRBracket then close_frame tok frames else start_value tok frames)"
| "parse_token tok (KeyOrEnd, frames) =
     (if tok = TRBrace then close_frame tok frames else start_member tok frames)"
| "parse_token tok (Key, frames) = start_member tok frames"
| "parse_token tok (Colon, frames) = (if tok = TColon then Some (Value, frames) else None)"
| "parse_token tok (CommaOrEnd, frames) =
     (if tok = TComma
      then (case frames of
              [] \<Rightarrow> None
            | ArrayFrame _ # _ \<Rightarrow> Some (Value, frames)
            | ObjectFrame _ _ # _ \<Rightarrow> Some (Key, frames))
      else close_frame tok frames)"
| "parse_token tok (Finished v, frames) = None"

fun parse_tokens :: "token list \<Rightarrow> expect \<times> frame list \<Rightarrow> (expect \<times> frame list) option" where
  "parse_tokens [] state = Some state"
| "parse_tokens (tok # toks) state =
     (case parse_token tok state of None \<Rightarrow> None | Some state' \<Rightarrow> parse_tokens toks state')"

definition JSON_parse :: "string \<Rightarrow> json option" where
  "JSON_parse s =
     (case lex s of
        None \<Rightarrow> None
      | Some toks \<Rightarrow>
          (case parse_tokens toks (Value, []) of
             Some (Finished v, []) \<Rightarrow> Some v
           | _ \<Rightarrow> None))"

section \<open>Reading the decoded values\<close>

text \<open>
  A property read gives \<open>None\<close> for \<open>undefined\<close>. \<open>js_member name v\<close> is \<open>v.name\<close>
  for a value \<open>v\<close> that is neither \<open>null\<close> nor \<open>undefined\<close>, and a name that is not
  a built-in member (it is used with \<open>choices\<close>, \<open>delta\<close>, \<open>message\<close> and
  \<open>content\<close>); of a repeated key the last member counts. \<open>js_first v\<close> is \<open>v[0]\<close>.
\<close>

definition js_member :: "string \<Rightarrow> json \<Rightarrow> json option" where
  "js_member name v = (case v of JObject members \<Rightarrow> map_of (rev members) name | _ \<Rightarrow> None)"

definition js_first :: "json \<Rightarrow> json option" where
  "js_first v =
     (case v of
        JArray xs \<Rightarrow> (case xs of [] \<Rightarrow> None | x # _ \<Rightarrow> Some x)
      | JString s \<Rightarrow> (case s of [] \<Rightarrow> None | c # _ \<Rightarrow> Some (JString [c]))
      | JObject members \<Rightarrow> map_of (rev members) ''0''
      | _ \<Rightarrow> None)"

text \<open>\<open>v?.name\<close>: \<open>undefined\<close> when \<open>v\<close> is \<open>undefined\<close> or \<open>null\<close>.\<close>

definition optional_member :: "string \<Rightarrow> json option \<Rightarrow> json option" where
  "optional_member name v =
     (case v of None \<Rightarrow> None | Some JNull \<Rightarrow> None | Some v' \<Rightarrow> js_member name v')"

text \<open>
  \<open>data.choices[0]\<close>; the outer \<open>None\<close> is the \<open>TypeError\<close> thrown when \<open>data\<close> is
  \<open>null\<close> or \<open>data.choices\<close> is \<open>undefined\<close> or \<open>null\<close>.
\<close>

definition first_choice :: "json \<Rightarrow> json option option" where
  "first_choice data =
     (case data of
        JNull \<Rightarrow> None
      | _ \<Rightarrow> (case js_member ''choices'' data of
                None \<Rightarrow> None
              | Some JNull \<Rightarrow> None
              | Some choices \<Rightarrow> Some (js_first choices)))"

text \<open>
  Truthiness and string conversion of a decoded value. A number is falsy when it is
  zero, that is when its lexeme has no digit other than 0 before the exponent. The wire
  contract has strings only in these places; of a number the conversion gives the
  lexeme, which is the engine's text for the integers written plainly.
\<close>

definition truthy :: "json \<Rightarrow> bool" where
  "truthy v =
     (case v of
        JNull \<Rightarrow> False
      | JBool b \<Rightarrow> b
      | JNumber lexeme \<Rightarrow>
          list_ex (\<lambda>c. isDigit c \<and> c \<noteq> CHR ''0'')
            (takeWhile (\<lambda>c. c \<noteq> CHR ''e'' \<and> c \<noteq> CHR ''E'') lexeme)
      | JString s \<Rightarrow> s \<noteq> []
      | _ \<Rightarrow> True)"

fun join_str :: "string \<Rightarrow> string list \<Rightarrow> string" where
  "join_str sep [] = []"
| "join_str sep [x] = x"
| "join_str sep (x # y # ys) = x @ sep @ join_str sep (y # ys)"

fun js_toString :: "json \<Rightarrow> string" where
  "js_toString JNull = ''null''"
| "js_toString (JBool b) = (if b then ''true'' else ''false'')"
| "js_toString (JNumber lexeme) = lexeme"
| "js_toString (JString s) = s"
| "js_toString (JArray xs) =
     join_str '','' (map (\<lambda>x. if x = JNull then [] else js_toString x) xs)"
| "js_toString (JObject members) = ''[object Object]''"

text \<open>\<open>v || fallback\<close>, then used as text.\<close>

definition or_text :: "json option \<Rightarrow> string \<Rightarrow> string" where
  "or_text v fallback =
     (case v of None \<Rightarrow> fallback | Some v' \<Rightarrow> if truthy v' then js_toString v' else fallback)"

section \<open>AnswerStreamClient (LLMService, OpenAIService)\<close>

text \<open>
  An option that is absent is \<open>None\<close>. \<open>onStreamUpdate\<close> says whether the caller
  supplied the callback; the calls of the callback are the notifications a request
  gives back, in order.
\<close>

record LLMOptions =
  apiKey :: "string option"
  model :: "string option"
  maxTokens :: "nat option"
  temperature :: "real option"
  stream :: "bool option"
  onStreamUpdate :: bool

record LLMResponse =
  answer :: string
  responseTime :: nat
  source :: string

text \<open>\<open>{ ...defaults, ...options }\<close>: an option that is present wins over the default.\<close>

definition or_default :: "'a option \<Rightarrow> 'a \<Rightarrow> 'a option" where
  "or_default v d = (case v of None \<Rightarrow> Some d | Some x \<Rightarrow> Some x)"

definition LLMService_new :: "LLMOptions \<Rightarrow> LLMOptions" where
  "LLMService_new options =
     options \<lparr> maxTokens := or_default (maxTokens options) 300,
               temperature := or_default (temperature options) 0.3,
               stream := or_default (stream options) True \<rparr>"

text \<open>The constructor: the options the service keeps, or the error it throws.\<close>

definition OpenAIService_new :: "LLMOptions \<Rightarrow> string + LLMOptions" where
  "OpenAIService_new options =
     (let this_options =
            LLMService_new (options \<lparr> model := or_default (model options) ''gpt-4o-mini'',
                                      stream := or_default (stream options) True \<rparr>)
      in if apiKey options = None \<or> apiKey options = Some []
         then Inl ''OpenAI API key is required''
         else Inr this_options)"

text \<open>
  The request. The system prompt of the source holds a character beyond the model's
  alphabet, so its text is a parameter.
\<close>

record ChatMessage =
  role :: string
  content :: string

record RequestBody =
  body_model :: "string option"
  body_messages :: "ChatMessage list"
  body_max_tokens :: "nat option"
  body_temperature :: "real option"
  body_stream :: "bool option"

record Request =
  request_method :: string
  header_content_type :: string
  header_authorization :: string
  request_body :: RequestBody

definition requestOptions :: "string \<Rightarrow> LLMOptions \<Rightarrow> string \<Rightarrow> Request" where
  "requestOptions systemPrompt options question =
     \<lparr> request_method = ''POST'',
       header_content_type = ''application/json'',
       header_authorization =
         ''Bearer '' @ (case apiKey options of None \<Rightarrow> ''undefined'' | Some key \<Rightarrow> key),
       request_body =
         \<lparr> body_model = model options,
           body_messages = [\<lparr> role = ''system'', content = systemPrompt \<rparr>,
                            \<lparr> role = ''user'', content = question \<rparr>],
           body_max_tokens = maxTokens options,
           body_temperature = temperature options,
           body_stream = stream options \<rparr> \<rparr>"

text \<open>
  What \<open>fetch\<close> gives: the promise is rejected with a message, or resolves to a response
  with its status and its body; the body is absent, or arrives as a list of decoded
  chunks. The response is taken as it was received in full.
\<close>

record HttpResponse =
  status :: nat
  body :: "string list option"

datatype fetch_result = Rejected string | Resolved HttpResponse

definition ok :: "HttpResponse \<Rightarrow> bool" where
  "ok response = (200 \<le> status response \<and> status response \<le> 299)"

definition response_text :: "HttpResponse \<Rightarrow> string" where
  "response_text response = (case body response of None \<Rightarrow> [] | Some chunks \<Rightarrow> concat chunks)"

text \<open>The messages of the errors the engine throws are the engine's.\<close>

definition SyntaxError_message :: string where
  "SyntaxError_message = ''SyntaxError''"

definition TypeError_message :: string where
  "TypeError_message = ''TypeError''"

text \<open>
  \<open>standardResponse\<close>: the whole body as one JSON document. \<open>time\<close> is what
  \<open>measureTime\<close> measures. \<open>Inl\<close> carries the message of the error thrown.
\<close>

definition message_content :: "json \<Rightarrow> string option" where
  "message_content response =
     (case first_choice response of
        None \<Rightarrow> None
      | Some choice \<Rightarrow>
          Some (or_text (optional_member ''content'' (optional_member ''message'' choice))
                        ''No answer received''))"

definition standardResponse :: "fetch_result \<Rightarrow> nat \<Rightarrow> string + LLMResponse" where
  "standardResponse fetched time =
     (case fetched of
        Rejected message \<Rightarrow> Inl message
      | Resolved response \<Rightarrow>
          if \<not> ok response
          then Inl (''API error: '' @ toString_nat (status response) @ '' - '' @ response_text response)
          else (case JSON_parse (response_text response) of
                  None \<Rightarrow> Inl SyntaxError_message
                | Some result \<Rightarrow>
                    (case message_content result of
                       None \<Rightarrow> Inl TypeError_message
                     | Some answer0 \<Rightarrow>
                         Inr \<lparr> answer = answer0, responseTime = time, source = ''openai'' \<rparr>)))"

text \<open>
  \<open>streamResponse\<close>. \<open>line_delta\<close> is the text one line adds to the answer: \<open>None\<close>
  for a line that is not a data line, for the payload \<open>[DONE]\<close>, for a payload that does
  not parse or whose reading throws (the \<open>catch\<close> skips it), and for empty content.
\<close>

definition delta_content :: "json \<Rightarrow> string option" where
  "delta_content data =
     (case first_choice data of
        None \<Rightarrow> None
      | Some choice \<Rightarrow>
          Some (or_text (optional_member ''content'' (optional_member ''delta'' choice)) []))"

definition line_delta :: "string \<Rightarrow> string option" where
  "line_delta line =
     (if startsWith line ''data: ''
      then (let jsonStr = drop 6 line
            in if jsonStr = ''[DONE]'' then None
               else (case JSON_parse jsonStr of
                       None \<Rightarrow> None
                     | Some data \<Rightarrow>
                         (case delta_content data of
                            None \<Rightarrow> None
                          | Some content0 \<Rightarrow> if content0 \<noteq> [] then Some content0 else None)))
      else None)"

text \<open>
  The state of the loop is the answer so far and the notifications so far. A line with
  a delta appends it to the answer and, when the callback is there, calls it with the
  whole answer.
\<close>

definition stream_line :: "LLMOptions \<Rightarrow> string \<Rightarrow> string \<times> string list \<Rightarrow> string \<times> string list" where
  "stream_line options line state =
     (case line_delta line of
        None \<Rightarrow> state
      | Some content0 \<Rightarrow>
          (let fullAnswer = fst state @ content0
           in (fullAnswer,
               if onStreamUpdate options then snd state @ [fullAnswer] else snd state)))"

definition chunk_lines :: "string \<Rightarrow> string list" where
  "chunk_lines chunk =
     filter (\<lambda>line. trim line \<noteq> [] \<and> trim line \<noteq> ''data: [DONE]'')
            (split_char (CHR 0x0A) [] chunk)"

definition stream_chunk :: "LLMOptions \<Rightarrow> string \<Rightarrow> string \<times> string list \<Rightarrow> string \<times> string list" where
  "stream_chunk options chunk state = fold (stream_line options) (chunk_lines chunk) state"

text \<open>
  The result is the list of notifications and the outcome; \<open>totalTime\<close> is the time
  from the start of the request to the end of the stream.
\<close>

definition streamResponse ::
    "LLMOptions \<Rightarrow> fetch_result \<Rightarrow> nat \<Rightarrow> string list \<times> (string + LLMResponse)" where
  "streamResponse options fetched totalTime =
     (case fetched of
        Rejected message \<Rightarrow> ([], Inl message)
      | Resolved response \<Rightarrow>
          if \<not> ok response
          then ([], Inl (''API error: '' @ toString_nat (status response) @ '' - ''
                          @ response_text response))
          else (case body response of
                  None \<Rightarrow> ([], Inl ''Response body is null'')
                | Some chunks \<Rightarrow>
                    (let (fullAnswer, notifications) = fold (stream_chunk options) chunks ([], [])
                     in (notifications,
                         Inr \<lparr> answer = fullAnswer, responseTime = totalTime,
                               source = ''openai-stream'' \<rparr>))))"

text \<open>
  \<open>getAnswer\<close>: \<open>fetch\<close> answers the request; an error of either path is thrown again
  under the prefix of \<open>getAnswer\<close>.
\<close>

definition getAnswer ::
    "string \<Rightarrow> LLMOptions \<Rightarrow> string \<Rightarrow> (Request \<Rightarrow> fetch_result) \<Rightarrow> nat
      \<Rightarrow> string list \<times> (string + LLMResponse)" where
  "getAnswer systemPrompt options question fetch time =
     (let fetched = fetch (requestOptions systemPrompt options question);
          (notifications, outcome) =
            (if stream options = Some True \<and> onStreamUpdate options
             then streamResponse options fetched time
             else ([], standardResponse fetched time))
      in (notifications,
          case outcome of
            Inl message \<Rightarrow> Inl (''Failed to get answer: '' @ message)
          | Inr response \<Rightarrow> Inr response))"

text \<open>The deltas of a stream, in order: those of all lines of all chunks.\<close>

definition stream_deltas :: "string list \<Rightarrow> string list" where
  "stream_deltas chunks = List.map_filter line_delta (concat (map chunk_lines chunks))"

text \<open>The lines of the streaming scenario, and a body of the non-streaming kind.\<close>

definition line_Hel :: string where
  \<open>line_Hel = ''data: {"choices":[{"delta":{"content":"Hel"}}]}''\<close>

definition line_lo :: string where
  \<open>line_lo = ''data: {"choices":[{"delta":{"content":"lo"}}]}''\<close>

definition line_DONE :: string where
  "line_DONE = ''data: [DONE]''"

definition body_Hi :: string where
  \<open>body_Hi = ''{"choices":[{"message":{"content":"Hi"}}]}''\<close>

definition streaming_options :: LLMOptions where
  "streaming_options =
     \<lparr> apiKey = Some ''sk-test'', model = Some ''gpt-4o-mini'', maxTokens = Some 400,
       temperature = Some 0.3, stream = Some True, onStreamUpdate = True \<rparr>"

section \<open>Properties of the similarity score\<close>

lemma array_set_at_end: "array_set xs (length xs) v = xs @ [v]"
  by (simp add: array_set_def)

lemma array_set_inside: "i < length xs \<Longrightarrow> array_set xs i v = xs[i := v]"
  by (simp add: array_set_def)

lemma lev_init_rows_upto:
  "fold (\<lambda>i matrix. array_set matrix i [i]) [0..<n] [] = map (\<lambda>i. [i]) [0..<n]"
  by (induction n) (simp_all add: array_set_def)

lemma lev_init_cols_upto:
  assumes "m \<noteq> []" and "m ! 0 = [0]"
  shows "fold (\<lambda>j matrix. array_set matrix 0 (array_set (matrix ! 0) j j)) [0..<Suc n] m
         = m[0 := [0..<Suc n]]"
proof (induction n)
  case 0
  from assms show ?case
    by (simp add: array_set_def list_update_same_conv)
next
  case (Suc n)
  have "[0..<Suc (Suc n)] = [0..<Suc n] @ [Suc n]"
    by simp
  then show ?case
    using assms Suc by (simp add: array_set_def del: upt_Suc)
qed

lemma lev_fill_row_upto:
  assumes i: "i = Suc i'" "i < length m"
    and prev: "m ! i' = map (lev_table a b i') [0..<Suc (length a)]"
    and cur: "m ! i = [i]"
    and n: "n \<le> length a"
  shows "lev_fill_row a b n i m = m[i := map (lev_table a b i) [0..<Suc n]]"
  using n
proof (induction n)
  case 0
  from i cur show ?case
    by (simp add: lev_fill_row_def) (metis list_update_id)
next
  case (Suc n)
  let ?m' = "m[i := map (lev_table a b i) [0..<Suc n]]"
  have step: "lev_fill_row a b (Suc n) i m =
      array_set (lev_fill_row a b n i m) i
        (array_set (lev_fill_row a b n i m ! i) (Suc n)
           (lev_cell a b (lev_fill_row a b n i m) i (Suc n)))"
    by (simp add: lev_fill_row_def)
  have ih: "lev_fill_row a b n i m = ?m'"
    using Suc by simp
  have row: "?m' ! i = map (lev_table a b i) [0..<Suc n]"
    using i by simp
  have above: "?m' ! i' = map (lev_table a b i') [0..<Suc (length a)]"
    using i prev by simp
  have r1: "?m' ! i' ! Suc n = lev_table a b i' (Suc n)"
    using Suc.prems unfolding above by (simp only: nth_map_upt add_0 length_upt diff_zero less_Suc_eq_le)
  have r2: "?m' ! i' ! n = lev_table a b i' n"
    using Suc.prems unfolding above
    by (metis Suc_leD add_0 diff_zero le_imp_less_Suc length_upt nth_map_upt)
  have r3: "?m' ! i ! n = lev_table a b i n"
    unfolding row by (metis add_0 diff_zero length_upt lessI nth_map_upt)
  have cell: "lev_cell a b ?m' i (Suc n) = lev_table a b i (Suc n)"
    using i r1 r2 r3 by (simp add: lev_cell_def)
  have "array_set (?m' ! i) (Suc n) (lev_table a b i (Suc n))
        = map (lev_table a b i) [0..<Suc (Suc n)]"
    unfolding row by (simp add: array_set_def)
  then show ?case
    unfolding step ih cell using i by (simp add: array_set_inside)
qed

lemma lev_fill_upto:
  assumes "k \<le> length b"
  shows "lev_fill a b k (lev_init_cols a (lev_init_rows b))
         = map (\<lambda>i. if i \<le> k then map (lev_table a b i) [0..<Suc (length a)] else [i])
               [0..<Suc (length b)]"
  using assms
proof (induction k)
  case 0
  have rows: "lev_init_rows b = map (\<lambda>i. [i]) [0..<Suc (length b)]"
    unfolding lev_init_rows_def by (rule lev_init_rows_upto)
  have "lev_init_cols a (lev_init_rows b) = (lev_init_rows b)[0 := [0..<Suc (length a)]]"
    unfolding lev_init_cols_def
    by (rule lev_init_cols_upto) (simp_all add: rows upt_conv_Cons del: upt_Suc)
  moreover have "map (lev_table a b 0) [0..<Suc (length a)] = [0..<Suc (length a)]"
    by (rule nth_equalityI) (simp_all del: upt_Suc)
  ultimately show ?case
    unfolding lev_fill_def rows
    by (auto intro!: nth_equalityI simp: nth_list_update simp del: upt_Suc)
next
  case (Suc k)
  let ?m = "map (\<lambda>i. if i \<le> k then map (lev_table a b i) [0..<Suc (length a)] else [i])
               [0..<Suc (length b)]"
  have ih: "lev_fill a b k (lev_init_cols a (lev_init_rows b)) = ?m"
    using Suc by simp
  have step: "lev_fill a b (Suc k) (lev_init_cols a (lev_init_rows b))
      = lev_fill_row a b (length a) (Suc k) (lev_fill a b k (lev_init_cols a (lev_init_rows b)))"
    by (simp add: lev_fill_def)
  have "lev_fill_row a b (length a) (Suc k) ?m
      = ?m[Suc k := map (lev_table a b (Suc k)) [0..<Suc (length a)]]"
    using Suc.prems
    by (intro lev_fill_row_upto[where i' = k]) (simp_all del: upt_Suc)
  also have "\<dots> = map (\<lambda>i. if i \<le> Suc k then map (lev_table a b i) [0..<Suc (length a)] else [i])
               [0..<Suc (length b)]"
  proof (rule nth_equalityI)
    show "length (?m[Suc k := map (lev_table a b (Suc k)) [0..<Suc (length a)]])
        = length (map (\<lambda>i. if i \<le> Suc k then map (lev_table a b i) [0..<Suc (length a)] else [i])
               [0..<Suc (length b)])"
      by simp
  next
    fix i
    assume "i < length (?m[Suc k := map (lev_table a b (Suc k)) [0..<Suc (length a)]])"
    then have i: "i < Suc (length b)"
      by simp
    have nth: "\<And>f. map f [0..<Suc (length b)] ! i = f i"
      using i by (metis add_0 diff_zero nth_map_upt)
    show "?m[Suc k := map (lev_table a b (Suc k)) [0..<Suc (length a)]] ! i
        = map (\<lambda>i. if i \<le> Suc k then map (lev_table a b i) [0..<Suc (length a)] else [i])
               [0..<Suc (length b)] ! i"
    proof (cases "i = Suc k")
      case True
      then show ?thesis
        using i unfolding nth by (simp del: upt_Suc)
    next
      case False
      then have "?m[Suc k := map (lev_table a b (Suc k)) [0..<Suc (length a)]] ! i = ?m ! i"
        by (simp del: upt_Suc)
      then show ?thesis
        using False unfolding nth by (auto simp del: upt_Suc)
    qed
  qed
  finally show ?case
    unfolding step ih .
qed

lemma levenshteinDistance_table:
  "levenshteinDistance a b = lev_table a b (length b) (length a)"
  unfolding levenshteinDistance_def
  by (simp add: lev_fill_upto del: upt_Suc)

lemma lev_table_swap: "lev_table a b i j = lev_table b a j i"
proof (induction a b i j rule: lev_table.induct)
  case (1 a b j)
  then show ?case by (cases j) simp_all
next
  case (2 a b i)
  then show ?case by simp
next
  case (3 a b i j)
  then show ?case by (simp add: min.commute eq_commute)
qed

lemma levenshteinDistance_sym: "levenshteinDistance a b = levenshteinDistance b a"
  by (simp add: levenshteinDistance_table lev_table_swap)

text \<open>
  C8. The similarity score is symmetric: for every pair of strings \<open>a\<close> and \<open>b\<close>,
  \<open>calculateSimilarity a b\<close> equals \<open>calculateSimilarity b a\<close>.
\<close>

theorem calculateSimilarity_symmetric: "calculateSimilarity a b = calculateSimilarity b a"
  unfolding calculateSimilarity_def Let_def
  by (simp add: levenshteinDistance_sym[of "toLowerCase a"] max.commute)


lemma areSimilarQuestions_swap: "areSimilarQuestions q1 q2 = areSimilarQuestions q2 q1"
  unfolding areSimilarQuestions_def calculateSimilarity_def Let_def
  by (simp add: levenshteinDistance_sym[of "toLowerCase q1"] max.commute)

section \<open>Properties of the question extractor\<close>

text \<open>
  C1 (as the code has it). Applied to the utterance
  "I need help with docker. What is kubernetes?", \<open>extractQuestions\<close> returns exactly
  one candidate, "What is kubernetes?": the second sentence is followed by a question
  mark in the utterance. The first sentence pushes nothing: it is not followed by a
  question mark, and no entry of \<open>questionIndicators\<close> starts it or stands in it
  between two spaces (the list has neither "i need" nor "help").
\<close>

theorem extractQuestions_docker_kubernetes:
  "extractQuestions ''I need help with docker. What is kubernetes?'' = [''What is kubernetes?'']
   \<and> sentence_questions ''I need help with docker. What is kubernetes?''
         ''I need help with docker'' = []"
  by code_simp

text \<open>
  C1 as stated fails: the result is not the two candidates "I need help with docker"
  and "What is kubernetes?".
\<close>

theorem extractQuestions_docker_kubernetes_not_two:
  "extractQuestions ''I need help with docker. What is kubernetes?''
   \<noteq> [''I need help with docker'', ''What is kubernetes?'']"
  by code_simp

section \<open>Properties of the classifier\<close>

lemma keywords_literal:
  "list_all (\<lambda>(domain, keywords). list_all (\<lambda>keyword. \<not> list_ex rx_special keyword) keywords)
     technicalKeywords"
  by code_simp

text \<open>No keyword is found in the empty text: there is no word boundary in it.\<close>

lemma keyword_regex_empty: "\<not> rx_test (keyword_regex keyword) []"
  by (simp add: rx_test_def keyword_regex_def rx_boundary_def)

lemma fold_keywords_empty:
  "fold (\<lambda>keyword matches.
           if rx_test (keyword_regex keyword) [] \<and> keyword \<notin> set matches
           then matches @ [keyword] else matches) kws matches = matches"
  by (induction kws) (simp_all add: keyword_regex_empty)

lemma findTechnicalKeywords_empty: "findTechnicalKeywords [] = []"
proof -
  have "fold (\<lambda>keywords matches.
             fold (\<lambda>keyword matches.
                     if rx_test (keyword_regex keyword) [] \<and> keyword \<notin> set matches
                     then matches @ [keyword] else matches)
                  keywords matches) tables matches = matches" for tables matches
    by (induction tables) (simp_all add: fold_keywords_empty)
  then show ?thesis
    by (simp add: findTechnicalKeywords_def)
qed

lemma determineTechnicalDomain_count: "snd (determineTechnicalDomain keywords) = length keywords"
  by (simp add: determineTechnicalDomain_def Let_def split_def)

lemma calculateConfidence_formula:
  assumes "textLength = 0 \<Longrightarrow> keywordCount = 0"
  shows "calculateConfidence isQuestionLike keywordCount textLength
         = min ((if isQuestionLike then 0.5 else 0.2) + min (real keywordCount * 0.15) 0.45) 0.95"
  using assms by (cases "textLength = 0") (simp_all add: calculateConfidence_def Let_def)

lemma detect_fields:
  "detectedKeywords (detectTechnicalQuestion t) = findTechnicalKeywords (toLowerCase (trim t))"
  "confidence (detectTechnicalQuestion t)
     = calculateConfidence (hasQuestionPattern (toLowerCase (trim t)))
         (length (findTechnicalKeywords (toLowerCase (trim t)))) (length (toLowerCase (trim t)))"
  "isTechnical (detectTechnicalQuestion t) = (confidence (detectTechnicalQuestion t) > 0.6)"
  "category (detectTechnicalQuestion t)
     = (if isTechnical (detectTechnicalQuestion t)
        then Some (fst (determineTechnicalDomain (findTechnicalKeywords (toLowerCase (trim t)))))
        else None)"
  using determineTechnicalDomain_count[of "findTechnicalKeywords (toLowerCase (trim t))"]
  by (simp_all add: detectTechnicalQuestion_def Let_def split_def)

text \<open>
  C2. For every input text the confidence of \<open>detectTechnicalQuestion\<close> is
  \<open>min (base + min (matchedKeywordCount * 0.15) 0.45) 0.95\<close>, with base 0.5 when a
  question pattern matches the cleaned text and 0.2 otherwise; \<open>isTechnical\<close> holds
  exactly when the confidence is above 0.6, and the category is present exactly when
  \<open>isTechnical\<close> holds. (The code adds the keyword term only for a non-empty cleaned
  text; an empty text has no keyword match, so the formula holds there too.)
\<close>

theorem detectTechnicalQuestion_confidence:
  "confidence (detectTechnicalQuestion t)
     = min ((if hasQuestionPattern (toLowerCase (trim t)) then 0.5 else 0.2)
            + min (real (length (detectedKeywords (detectTechnicalQuestion t))) * 0.15) 0.45) 0.95
   \<and> (isTechnical (detectTechnicalQuestion t) \<longleftrightarrow> confidence (detectTechnicalQuestion t) > 0.6)
   \<and> (category (detectTechnicalQuestion t) \<noteq> None \<longleftrightarrow> isTechnical (detectTechnicalQuestion t))"
proof -
  let ?clean = "toLowerCase (trim t)"
  have empty: "length ?clean = 0 \<Longrightarrow> length (findTechnicalKeywords ?clean) = 0"
    by (simp add: findTechnicalKeywords_empty)
  have c1: "confidence (detectTechnicalQuestion t)
     = min ((if hasQuestionPattern ?clean then 0.5 else 0.2)
            + min (real (length (detectedKeywords (detectTechnicalQuestion t))) * 0.15) 0.45) 0.95"
    unfolding detect_fields(1) detect_fields(2)
    by (rule calculateConfidence_formula) (rule empty)
  have c2: "isTechnical (detectTechnicalQuestion t) \<longleftrightarrow> confidence (detectTechnicalQuestion t) > 0.6"
    by (rule detect_fields(3))
  have c3: "category (detectTechnicalQuestion t) \<noteq> None \<longleftrightarrow> isTechnical (detectTechnicalQuestion t)"
    by (simp add: detect_fields(4))
  from c1 c2 c3 show ?thesis
    by (intro conjI)
qed

section \<open>Properties of the question registry\<close>

lemma analyzeQuestion_questions:
  "detectedQuestions (analyzeQuestion clock t st) = detectedQuestions st
   \<or> (\<exists>question. createTechnicalQuestion clock t = Some question
         \<and> \<not> list_ex (\<lambda>q. areSimilarQuestions (q_text q) (q_text question)) (detectedQuestions st)
         \<and> detectedQuestions (analyzeQuestion clock t st) = detectedQuestions st @ [question])"
  by (cases "createTechnicalQuestion clock t") (simp_all add: analyzeQuestion_def Let_def)

lemma analyzeQuestion_ok:
  assumes "registry_ok (detectedQuestions st)"
  shows "registry_ok (detectedQuestions (analyzeQuestion clock t st))"
  using analyzeQuestion_questions[of clock t st] assms
  by (auto simp: registry_ok_def sorted_wrt_append list_ex_iff)

lemma fold_analyzeQuestion_ok:
  assumes "registry_ok (detectedQuestions st)"
  shows "registry_ok (detectedQuestions
           (fold (\<lambda>(k, questionText) st'.
                    if length questionText > 5
                    then analyzeQuestion (clock k) questionText st' else st') kqs st))"
  using assms
proof (induction kqs arbitrary: st)
  case Nil
  then show ?case by simp
next
  case (Cons kq kqs)
  obtain k questionText where kq: "kq = (k, questionText)"
    by (cases kq)
  show ?case
    unfolding kq using Cons.prems
    by (auto intro!: Cons.IH analyzeQuestion_ok)
qed

lemma processNewSpeechSegment_ok:
  assumes "registry_ok (detectedQuestions st)"
  shows "registry_ok (detectedQuestions (processNewSpeechSegment seen segNow clock segment st))"
proof -
  let ?st1 = "st \<lparr> processedSegments :=
                   processedSegments st @ [\<lparr> seg_text = segment, seg_timestamp = segNow \<rparr>] \<rparr>"
  have st1: "registry_ok (detectedQuestions ?st1)"
    using assms by simp
  show ?thesis
    unfolding processNewSpeechSegment_def Let_def
    using assms analyzeQuestion_ok[OF st1, of "clock 0" segment]
      fold_analyzeQuestion_ok[OF st1, where clock = clock
        and kqs = "enumerate 0 (extractQuestions segment)"]
    by simp
qed

lemma step_ok:
  assumes "registry_ok (detectedQuestions st)"
  shows "registry_ok (detectedQuestions (step e st))"
proof (cases e)
  case (FinalSegment seen segNow clock segment)
  then show ?thesis
    using assms by (simp add: processNewSpeechSegment_ok)
next
  case (AnalyzeQuestion clock questionText)
  then show ?thesis
    using assms by (simp add: analyzeQuestion_ok)
next
  case (SelectQuestion index)
  then show ?thesis
    using assms by (simp add: selectQuestion_def)
next
  case ClearTranscript
  then show ?thesis
    using assms by (simp add: clearTranscript_def)
next
  case ClearQuestions
  then show ?thesis
    by (simp add: clearQuestions_def registry_ok_def)
next
  case ClearAll
  then show ?thesis
    by (simp add: clearAll_def clearQuestions_def registry_ok_def)
qed

lemma run_ok:
  assumes "registry_ok (detectedQuestions st)"
  shows "registry_ok (detectedQuestions (run events st))"
  using assms unfolding run_def
  by (induction events arbitrary: st) (simp_all add: step_ok)

lemma registry_ok_nth:
  assumes ok: "registry_ok qs" and i: "i < length qs" and j: "j < length qs" and ne: "i \<noteq> j"
  shows "\<not> areSimilarQuestions (q_text (qs ! i)) (q_text (qs ! j))"
proof (cases "i < j")
  case True
  with ok j show ?thesis
    by (simp add: registry_ok_def sorted_wrt_iff_nth_less)
next
  case False
  with ne have "j < i"
    by simp
  with ok i have "\<not> areSimilarQuestions (q_text (qs ! j)) (q_text (qs ! i))"
    by (simp add: registry_ok_def sorted_wrt_iff_nth_less)
  then show ?thesis
    by (simp add: areSimilarQuestions_swap)
qed

text \<open>
  C4. After any sequence of events (final segments, question insertions, selections
  and clears) from the initial state, any two distinct entries of the registry have
  similarity at most 0.8. An insertion whose question (its text is the trimmed
  candidate, as the entry would store it) has similarity above 0.8 with some existing
  entry returns the state as it was.
\<close>

theorem registry_pairwise_dissimilar:
  "(\<forall>i j. i < length (detectedQuestions (run events initial))
          \<longrightarrow> j < length (detectedQuestions (run events initial))
          \<longrightarrow> i \<noteq> j
          \<longrightarrow> calculateSimilarity (q_text (detectedQuestions (run events initial) ! i))
                                  (q_text (detectedQuestions (run events initial) ! j)) \<le> 0.8)
   \<and> (\<forall>clock t question (st::VoiceUI).
          createTechnicalQuestion clock t = Some question
          \<longrightarrow> (\<exists>q \<in> set (detectedQuestions st).
                 calculateSimilarity (q_text q) (q_text question) > 0.8)
          \<longrightarrow> analyzeQuestion clock t st = st)"
proof (intro conjI allI impI)
  fix i j
  assume "i < length (detectedQuestions (run events initial))"
    and "j < length (detectedQuestions (run events initial))"
    and "i \<noteq> j"
  moreover have "registry_ok (detectedQuestions (run events initial))"
    by (rule run_ok) (simp add: initial_def registry_ok_def)
  ultimately have "\<not> areSimilarQuestions (q_text (detectedQuestions (run events initial) ! i))
                                        (q_text (detectedQuestions (run events initial) ! j))"
    by (rule registry_ok_nth[rotated])
  then show "calculateSimilarity (q_text (detectedQuestions (run events initial) ! i))
                                 (q_text (detectedQuestions (run events initial) ! j)) \<le> 0.8"
    by (simp add: areSimilarQuestions_def not_less)
next
  fix clock t question and st :: VoiceUI
  assume "createTechnicalQuestion clock t = Some question"
    and "\<exists>q \<in> set (detectedQuestions st). calculateSimilarity (q_text q) (q_text question) > 0.8"
  then show "analyzeQuestion clock t st = st"
    by (auto simp: analyzeQuestion_def Let_def list_ex_iff areSimilarQuestions_def)
qed

lemma registry_example:
  "map q_text (detectedQuestions (run
     [AnalyzeQuestion (1000, ''10:00:00 AM'') ''What is docker?'',
      AnalyzeQuestion (2000, ''10:00:01 AM'') ''What is docker'',
      AnalyzeQuestion (3000, ''10:00:02 AM'') ''What is sql?''] initial))
   = [''What is docker?'', ''What is sql?'']"
  by code_simp

theorem registry_pairwise_dissimilar_witness:
  "length (detectedQuestions (run
     [AnalyzeQuestion (1000, ''10:00:00 AM'') ''What is docker?'',
      AnalyzeQuestion (2000, ''10:00:01 AM'') ''What is docker'',
      AnalyzeQuestion (3000, ''10:00:02 AM'') ''What is sql?''] initial)) = 2
   \<and> calculateSimilarity ''What is docker?'' ''What is sql?'' \<le> 0.8"
proof -
  let ?events = "[AnalyzeQuestion (1000, ''10:00:00 AM'') ''What is docker?'',
      AnalyzeQuestion (2000, ''10:00:01 AM'') ''What is docker'',
      AnalyzeQuestion (3000, ''10:00:02 AM'') ''What is sql?'']"
  let ?qs = "detectedQuestions (run ?events initial)"
  have len: "length ?qs = 2"
    using arg_cong[OF registry_example, of length] by simp
  have q0: "q_text (?qs ! 0) = ''What is docker?''"
    using arg_cong[OF registry_example, of "\<lambda>xs. xs ! 0"] len by (simp del: map_eq_Cons_conv)
  have q1: "q_text (?qs ! 1) = ''What is sql?''"
    using arg_cong[OF registry_example, of "\<lambda>xs. xs ! 1"] len by (simp del: map_eq_Cons_conv)
  have "calculateSimilarity (q_text (?qs ! 0)) (q_text (?qs ! 1)) \<le> 0.8"
    using registry_pairwise_dissimilar[of ?events] len by simp
  then show ?thesis
    using len q0 q1 by simp
qed

text \<open>
  C6 (as the code has it). \<open>selectQuestion index\<close> sets the selected-question pointer
  to \<open>index\<close> for every integer, in range or not, and changes nothing else. For an
  index in range the view then shows the entry at that index; for an index out of range
  the pointer is set all the same and the view shows no selection.
\<close>

theorem selectQuestion_sets_pointer:
  "currentQuestionIndex (selectQuestion index st) = index
   \<and> detectedQuestions (selectQuestion index st) = detectedQuestions st
   \<and> processedSegments (selectQuestion index st) = processedSegments st
   \<and> selectedQuestion (selectQuestion index st)
       = (if 0 \<le> index \<and> index < int (length (detectedQuestions st))
          then Some (detectedQuestions st ! nat index) else None)"
  by (simp add: selectQuestion_def selectedQuestion_def)

text \<open>
  C6 as stated fails: on the empty registry, where no index is in range, selecting
  index 5 is not a no-op; it moves the pointer from -1 to 5.
\<close>

theorem selectQuestion_out_of_range:
  "\<not> (0 \<le> (5::int) \<and> (5::int) < int (length (detectedQuestions initial)))
   \<and> currentQuestionIndex initial = - 1
   \<and> currentQuestionIndex (selectQuestion 5 initial) = 5
   \<and> selectQuestion 5 initial \<noteq> initial"
proof -
  have "currentQuestionIndex (selectQuestion 5 initial) \<noteq> currentQuestionIndex initial"
    by (simp add: selectQuestion_def initial_def)
  then have "selectQuestion 5 initial \<noteq> initial"
    by auto
  then show ?thesis
    by (simp add: selectQuestion_def initial_def)
qed

text \<open>
  C9 (the code at the failing input). One final segment with two questions, handled
  within one millisecond (the clock reads 1000 for both): both questions are accepted,
  and the two entries carry the same id.
\<close>

theorem same_millisecond_same_id:
  "map q_id (detectedQuestions (run
     [FinalSegment [] 1000 (\<lambda>k. (1000, ''10:00:00 AM'')) ''What is docker? What is sql?'']
     initial)) = [''1000'', ''1000'']
   \<and> map q_text (detectedQuestions (run
     [FinalSegment [] 1000 (\<lambda>k. (1000, ''10:00:00 AM'')) ''What is docker? What is sql?'']
     initial)) = [''What is docker?'', ''What is sql?'']"
  by code_simp

section \<open>Properties of the answer client\<close>

lemma includes_str_middle: "includes_str (a @ p @ b) p"
proof (induction a)
  case Nil
  have start: "startsWith (p @ b) p"
    by (simp add: startsWith_def)
  show ?case
  proof (cases "p @ b")
    case Nil
    then show ?thesis by simp
  next
    case (Cons c s)
    with start show ?thesis
      by (metis append_Nil includes_str.simps(2))
  qed
next
  case (Cons c a)
  then show ?case by simp
qed

lemma split_char_append:
  "split_char sep piece (a @ sep # b) = split_char sep piece a @ split_char sep [] b"
  by (induction a arbitrary: piece) simp_all

lemma stream_lines_fold:
  "fold (stream_line options) lines (a, ns)
   = (a @ concat (List.map_filter line_delta lines),
      if onStreamUpdate options
      then ns @ map (\<lambda>k. a @ concat (take (Suc k) (List.map_filter line_delta lines)))
                    [0..<length (List.map_filter line_delta lines)]
      else ns)"
proof (induction lines arbitrary: a ns)
  case Nil
  then show ?case
    by simp
next
  case (Cons line lines)
  show ?case
  proof (cases "line_delta line")
    case None
    then show ?thesis
      using Cons[of a ns] by (simp add: stream_line_def)
  next
    case (Some d)
    let ?ds = "List.map_filter line_delta lines"
    have step: "stream_line options line (a, ns)
        = (a @ d, if onStreamUpdate options then ns @ [a @ d] else ns)"
      using Some by (simp add: stream_line_def Let_def)
    have upt: "map (\<lambda>k. a @ concat (take (Suc k) (d # ?ds))) [0..<Suc (length ?ds)]
        = (a @ d) # map (\<lambda>k. (a @ d) @ concat (take (Suc k) ?ds)) [0..<length ?ds]"
      by (simp add: map_upt_Suc del: upt_Suc)
    show ?thesis
      using Some Cons[of "a @ d" "if onStreamUpdate options then ns @ [a @ d] else ns"] upt
      by (simp add: step del: upt_Suc)
  qed
qed

lemma stream_chunks_fold:
  "fold (stream_chunk options) chunks state
   = fold (stream_line options) (concat (map chunk_lines chunks)) state"
  by (induction chunks arbitrary: state) (simp_all add: stream_chunk_def)

lemma streamResponse_deltas:
  assumes "ok response" and "body response = Some chunks"
  shows "streamResponse options (Resolved response) totalTime
         = (if onStreamUpdate options
            then map (\<lambda>k. concat (take (Suc k) (stream_deltas chunks)))
                     [0..<length (stream_deltas chunks)]
            else [],
            Inr \<lparr> answer = concat (stream_deltas chunks), responseTime = totalTime,
                  source = ''openai-stream'' \<rparr>)"
  using assms
  by (simp add: streamResponse_def stream_chunks_fold stream_lines_fold stream_deltas_def
           del: upt_Suc)

lemma scenario_deltas:
  "stream_deltas [line_Hel, line_lo, line_DONE] = [''Hel'', ''lo'']"
  "stream_deltas [line_Hel @ [CHR 0x0A] @ line_lo @ [CHR 0x0A] @ line_DONE] = [''Hel'', ''lo'']"
  by code_simp+

lemma chunk_lines_DONE:
  "chunk_lines (earlier @ [CHR 0x0A] @ line_DONE @ [CHR 0x0A] @ later) = chunk_lines (earlier @ [CHR 0x0A] @ later)"
proof -
  have one: "split_char (CHR 0x0A) [] line_DONE = [line_DONE]"
    by code_simp
  have dropped: "trim line_DONE = ''data: [DONE]''"
    by code_simp
  have "split_char (CHR 0x0A) [] (earlier @ CHR 0x0A # line_DONE @ CHR 0x0A # later)
      = split_char (CHR 0x0A) [] earlier @ [line_DONE] @ split_char (CHR 0x0A) [] later"
    by (simp only: split_char_append one)
  moreover have "split_char (CHR 0x0A) [] (earlier @ CHR 0x0A # later)
      = split_char (CHR 0x0A) [] earlier @ split_char (CHR 0x0A) [] later"
    by (simp only: split_char_append)
  ultimately show ?thesis
    by (simp add: chunk_lines_def dropped)
qed

lemma scenario_notifications:
  "map (\<lambda>k. concat (take (Suc k) [''Hel'', ''lo''])) [0..<length [''Hel'', ''lo'']]
   = [''Hel'', ''Hello'']"
  "concat [''Hel'', ''lo''] = ''Hello''"
  by code_simp+

lemma getAnswer_streaming:
  assumes "stream options = Some True" and "onStreamUpdate options"
  shows "getAnswer systemPrompt options question fetch time
         = (fst (streamResponse options (fetch (requestOptions systemPrompt options question)) time),
            case snd (streamResponse options
                        (fetch (requestOptions systemPrompt options question)) time) of
              Inl message \<Rightarrow> Inl (''Failed to get answer: '' @ message)
            | Inr response \<Rightarrow> Inr response)"
  using assms by (simp add: getAnswer_def Let_def split_def)

lemma getAnswer_standard:
  assumes "\<not> (stream options = Some True \<and> onStreamUpdate options)"
  shows "getAnswer systemPrompt options question fetch time
         = ([], case standardResponse (fetch (requestOptions systemPrompt options question)) time of
                  Inl message \<Rightarrow> Inl (''Failed to get answer: '' @ message)
                | Inr response \<Rightarrow> Inr response)"
  using assms by (auto simp add: getAnswer_def Let_def split_def)

lemma streamResponse_source:
  assumes "snd (streamResponse options fetched time) = Inr result"
  shows "source result = ''openai-stream''"
proof (cases fetched)
  case (Rejected message)
  with assms show ?thesis
    by (simp add: streamResponse_def)
next
  case (Resolved response)
  show ?thesis
  proof (cases "ok response")
    case False
    with Resolved assms show ?thesis
      by (simp add: streamResponse_def)
  next
    case True
    show ?thesis
    proof (cases "body response")
      case None
      with True Resolved assms show ?thesis
        by (simp add: streamResponse_def)
    next
      case (Some chunks)
      with True Resolved assms streamResponse_deltas[OF True Some, of options time]
      show ?thesis
        by auto
    qed
  qed
qed

lemma standardResponse_source:
  assumes "standardResponse fetched time = Inr result"
  shows "source result = ''openai''"
  using assms
  by (cases fetched)
     (auto simp: standardResponse_def split: if_splits option.splits)

text \<open>
  C3. During streaming every notification carries the whole answer so far: for a
  successful response whose body arrives in the chunks \<open>chunks\<close>, and a caller that
  supplied the callback, the \<open>k\<close>-th notification is the concatenation of the first
  \<open>k + 1\<close> text deltas of the stream, and the final answer is the concatenation of all
  of them. For the lines \<open>line_Hel\<close>, \<open>line_lo\<close>, \<open>line_DONE\<close>, arriving as three
  chunks or as the lines of one chunk, the client emits "Hel" and then "Hello" and
  completes with the answer "Hello".
\<close>

theorem stream_notifications_accumulate:
  "(onStreamUpdate options \<and> ok response \<and> body response = Some chunks
      \<longrightarrow> streamResponse options (Resolved response) totalTime
          = (map (\<lambda>k. concat (take (Suc k) (stream_deltas chunks)))
                 [0..<length (stream_deltas chunks)],
             Inr \<lparr> answer = concat (stream_deltas chunks), responseTime = totalTime,
                   source = ''openai-stream'' \<rparr>))
   \<and> getAnswer systemPrompt streaming_options question
         (\<lambda>request. Resolved \<lparr> status = 200, body = Some [line_Hel, line_lo, line_DONE] \<rparr>) time
       = ([''Hel'', ''Hello''],
          Inr \<lparr> answer = ''Hello'', responseTime = time, source = ''openai-stream'' \<rparr>)
   \<and> getAnswer systemPrompt streaming_options question
         (\<lambda>request. Resolved \<lparr> status = 200,
            body = Some [line_Hel @ [CHR 0x0A] @ line_lo @ [CHR 0x0A] @ line_DONE] \<rparr>) time
       = ([''Hel'', ''Hello''],
          Inr \<lparr> answer = ''Hello'', responseTime = time, source = ''openai-stream'' \<rparr>)"
proof (intro conjI impI)
  assume "onStreamUpdate options \<and> ok response \<and> body response = Some chunks"
  then show "streamResponse options (Resolved response) totalTime
          = (map (\<lambda>k. concat (take (Suc k) (stream_deltas chunks)))
                 [0..<length (stream_deltas chunks)],
             Inr \<lparr> answer = concat (stream_deltas chunks), responseTime = totalTime,
                   source = ''openai-stream'' \<rparr>)"
    by (simp add: streamResponse_deltas del: upt_Suc)
next
  have opts: "stream streaming_options = Some True" "onStreamUpdate streaming_options"
    by (simp_all add: streaming_options_def)
  have okay: "ok \<lparr> status = 200, body = b \<rparr>" for b
    by (simp add: ok_def)
  have sr: "streamResponse streaming_options (Resolved \<lparr> status = 200, body = Some chunks' \<rparr>) time
      = ([''Hel'', ''Hello''],
         Inr \<lparr> answer = ''Hello'', responseTime = time, source = ''openai-stream'' \<rparr>)"
    if "stream_deltas chunks' = [''Hel'', ''lo'']" for chunks'
    unfolding streamResponse_deltas[OF okay, of "Some chunks'" chunks' streaming_options time, simplified]
    by (simp only: that opts if_True scenario_notifications)
  have ga: "getAnswer systemPrompt streaming_options question (\<lambda>request. fetched) time
      = (fst (streamResponse streaming_options fetched time),
         case snd (streamResponse streaming_options fetched time) of
           Inl message \<Rightarrow> Inl (''Failed to get answer: '' @ message)
         | Inr response \<Rightarrow> Inr response)" for fetched
    by (rule getAnswer_streaming) (rule opts)+
  show "getAnswer systemPrompt streaming_options question
         (\<lambda>request. Resolved \<lparr> status = 200, body = Some [line_Hel, line_lo, line_DONE] \<rparr>) time
       = ([''Hel'', ''Hello''],
          Inr \<lparr> answer = ''Hello'', responseTime = time, source = ''openai-stream'' \<rparr>)"
    by (simp only: ga sr[OF scenario_deltas(1)] fst_conv snd_conv sum.case)
  show "getAnswer systemPrompt streaming_options question
         (\<lambda>request. Resolved \<lparr> status = 200,
            body = Some [line_Hel @ [CHR 0x0A] @ line_lo @ [CHR 0x0A] @ line_DONE] \<rparr>) time
       = ([''Hel'', ''Hello''],
          Inr \<lparr> answer = ''Hello'', responseTime = time, source = ''openai-stream'' \<rparr>)"
    by (simp only: ga sr[OF scenario_deltas(2)] fst_conv snd_conv sum.case)
qed

theorem stream_notifications_accumulate_witness:
  "streamResponse streaming_options
     (Resolved \<lparr> status = 200, body = Some [line_Hel, line_lo, line_DONE] \<rparr>) 42
   = ([''Hel'', ''Hello''],
      Inr \<lparr> answer = ''Hello'', responseTime = 42, source = ''openai-stream'' \<rparr>)"
proof -
  let ?response = "\<lparr> status = 200, body = Some [line_Hel, line_lo, line_DONE] \<rparr>"
  have "onStreamUpdate streaming_options \<and> ok ?response
      \<and> body ?response = Some [line_Hel, line_lo, line_DONE]"
    by (simp add: streaming_options_def ok_def)
  with stream_notifications_accumulate[where options = streaming_options
         and response = ?response and chunks = "[line_Hel, line_lo, line_DONE]" and totalTime = 42]
  have "streamResponse streaming_options (Resolved ?response) 42
      = (map (\<lambda>k. concat (take (Suc k) (stream_deltas [line_Hel, line_lo, line_DONE])))
             [0..<length (stream_deltas [line_Hel, line_lo, line_DONE])],
         Inr \<lparr> answer = concat (stream_deltas [line_Hel, line_lo, line_DONE]), responseTime = 42,
               source = ''openai-stream'' \<rparr>)"
    by blast
  then show ?thesis
    by (simp only: scenario_deltas scenario_notifications)
qed

text \<open>
  C5 (as the code has it). A \<open>data: [DONE]\<close> line adds no delta and no notification,
  and it does not end the loop: a successful stream is consumed to its end, whatever
  stands before or after such a line, and the request then completes with the answer
  accumulated from all the lines of all the chunks. So a chunk with a \<open>data: [DONE]\<close>
  line gives the same result as the chunk without that line.
\<close>

theorem DONE_line_is_skipped:
  "(ok response \<and> body response = Some chunks
      \<longrightarrow> snd (streamResponse options (Resolved response) totalTime)
          = Inr \<lparr> answer = concat (stream_deltas chunks), responseTime = totalTime,
                  source = ''openai-stream'' \<rparr>)
   \<and> line_delta line_DONE = None
   \<and> (200 \<le> code \<and> code \<le> 299
      \<longrightarrow> streamResponse options
            (Resolved \<lparr> status = code,
               body = Some (before @ [earlier @ [CHR 0x0A] @ line_DONE @ [CHR 0x0A] @ later] @ after) \<rparr>)
            totalTime
          = streamResponse options
            (Resolved \<lparr> status = code, body = Some (before @ [earlier @ [CHR 0x0A] @ later] @ after) \<rparr>)
            totalTime)"
proof (intro conjI impI)
  assume "ok response \<and> body response = Some chunks"
  then show "snd (streamResponse options (Resolved response) totalTime)
          = Inr \<lparr> answer = concat (stream_deltas chunks), responseTime = totalTime,
                  source = ''openai-stream'' \<rparr>"
    by (simp add: streamResponse_deltas del: upt_Suc)
next
  show "line_delta line_DONE = None"
    by code_simp
next
  assume code: "200 \<le> code \<and> code \<le> 299"
  have "stream_deltas (before @ [earlier @ [CHR 0x0A] @ line_DONE @ [CHR 0x0A] @ later] @ after)
      = stream_deltas (before @ [earlier @ [CHR 0x0A] @ later] @ after)"
    unfolding stream_deltas_def using chunk_lines_DONE[of earlier later] by simp
  with code show "streamResponse options
            (Resolved \<lparr> status = code,
               body = Some (before @ [earlier @ [CHR 0x0A] @ line_DONE @ [CHR 0x0A] @ later] @ after) \<rparr>)
            totalTime
          = streamResponse options
            (Resolved \<lparr> status = code, body = Some (before @ [earlier @ [CHR 0x0A] @ later] @ after) \<rparr>)
            totalTime"
    by (simp add: streamResponse_deltas ok_def del: upt_Suc)
qed

theorem DONE_line_is_skipped_witness:
  "streamResponse streaming_options
     (Resolved \<lparr> status = 200,
        body = Some ([] @ [line_Hel @ [CHR 0x0A] @ line_DONE @ [CHR 0x0A] @ line_lo] @ []) \<rparr>) 42
   = ([''Hel'', ''Hello''],
      Inr \<lparr> answer = ''Hello'', responseTime = 42, source = ''openai-stream'' \<rparr>)"
proof -
  have plain: "streamResponse streaming_options
     (Resolved \<lparr> status = 200, body = Some ([] @ [line_Hel @ [CHR 0x0A] @ line_lo] @ []) \<rparr>) 42
   = ([''Hel'', ''Hello''],
      Inr \<lparr> answer = ''Hello'', responseTime = 42, source = ''openai-stream'' \<rparr>)"
    by code_simp
  have "(200::nat) \<le> 200 \<and> (200::nat) \<le> 299"
    by simp
  with DONE_line_is_skipped[where code = 200 and options = streaming_options
         and before = "[]" and earlier = line_Hel and later = line_lo and after = "[]" and totalTime = 42]
    plain
  show ?thesis
    by (simp only:)
qed

text \<open>
  C5 as stated fails: a line after \<open>data: [DONE]\<close> still adds its delta and raises a
  notification, in the same chunk or in a later one; the result differs from that of the
  stream that ends at \<open>data: [DONE]\<close>.
\<close>

theorem lines_after_DONE_count:
  "streamResponse streaming_options
     (Resolved \<lparr> status = 200, body = Some [line_Hel, line_DONE, line_lo] \<rparr>) 42
   = ([''Hel'', ''Hello''],
      Inr \<lparr> answer = ''Hello'', responseTime = 42, source = ''openai-stream'' \<rparr>)
   \<and> streamResponse streaming_options
     (Resolved \<lparr> status = 200, body = Some [line_Hel, line_DONE] \<rparr>) 42
   = ([''Hel''],
      Inr \<lparr> answer = ''Hel'', responseTime = 42, source = ''openai-stream'' \<rparr>)
   \<and> streamResponse streaming_options
     (Resolved \<lparr> status = 200, body = Some [line_DONE @ [CHR 0x0A] @ line_lo] \<rparr>) 42
   = ([''lo''],
      Inr \<lparr> answer = ''lo'', responseTime = 42, source = ''openai-stream'' \<rparr>)"
  by code_simp

lemma streamResponse_not_ok:
  assumes "\<not> ok response"
  shows "streamResponse options (Resolved response) time
         = ([], Inl (''API error: '' @ toString_nat (status response) @ '' - ''
                     @ response_text response))"
  using assms by (simp add: streamResponse_def)

lemma standardResponse_not_ok:
  assumes "\<not> ok response"
  shows "standardResponse (Resolved response) time
         = Inl (''API error: '' @ toString_nat (status response) @ '' - '' @ response_text response)"
  using assms by (simp add: standardResponse_def)

text \<open>
  C7. A request whose response has a non-success status ends in failure: \<open>getAnswer\<close>
  throws an error whose message contains the status code, and no notification is
  emitted, on the streaming path and on the other.
\<close>

theorem non_ok_status_fails:
  "\<not> ok response \<and> fetch (requestOptions systemPrompt options question) = Resolved response
   \<longrightarrow> (\<exists>message. getAnswer systemPrompt options question fetch time = ([], Inl message)
                 \<and> includes_str message (toString_nat (status response)))"
proof
  assume a: "\<not> ok response \<and> fetch (requestOptions systemPrompt options question) = Resolved response"
  let ?api = "''API error: '' @ toString_nat (status response) @ '' - '' @ response_text response"
  have "getAnswer systemPrompt options question fetch time
      = ([], Inl (''Failed to get answer: '' @ ?api))"
  proof (cases "stream options = Some True \<and> onStreamUpdate options")
    case True
    then show ?thesis
      using a getAnswer_streaming[of options systemPrompt question fetch time]
      by (simp add: streamResponse_not_ok)
  next
    case False
    then show ?thesis
      using a getAnswer_standard[of options systemPrompt question fetch time]
      by (simp add: standardResponse_not_ok)
  qed
  moreover have "includes_str ((''Failed to get answer: '' @ ''API error: '')
                      @ toString_nat (status response) @ ('' - '' @ response_text response))
                   (toString_nat (status response))"
    by (rule includes_str_middle)
  ultimately show "\<exists>message. getAnswer systemPrompt options question fetch time = ([], Inl message)
                 \<and> includes_str message (toString_nat (status response))"
    by simp
qed

theorem non_ok_status_fails_witness:
  "\<exists>message. getAnswer [] streaming_options ''What is docker?''
       (\<lambda>request. Resolved \<lparr> status = 401, body = Some [''Unauthorized''] \<rparr>) 42 = ([], Inl message)
     \<and> includes_str message ''401''"
proof -
  have "\<not> ok \<lparr> status = 401, body = Some [''Unauthorized''] \<rparr>"
    by (simp add: ok_def)
  moreover have "toString_nat 401 = ''401''"
    by code_simp
  ultimately show ?thesis
    using non_ok_status_fails[where response = "\<lparr> status = 401, body = Some [''Unauthorized''] \<rparr>"
        and fetch = "\<lambda>request. Resolved \<lparr> status = 401, body = Some [''Unauthorized''] \<rparr>"
        and systemPrompt = "[]" and options = streaming_options
        and question = "''What is docker?''" and time = 42]
    by simp
qed

text \<open>
  C10. With the stream option true and no callback, \<open>getAnswer\<close> takes the
  non-streaming path, which parses the whole body as one JSON document, although the
  request body carries \<open>stream: true\<close>. In general \<open>getAnswer\<close> takes the streaming
  path exactly when the stream option is true and the callback is supplied; a result of
  that path, and only of that path, has the source "openai-stream".
\<close>

theorem stream_without_callback_is_standard:
  "(stream options = Some True \<and> \<not> onStreamUpdate options
      \<longrightarrow> getAnswer systemPrompt options question fetch time
            = ([], case standardResponse (fetch (requestOptions systemPrompt options question)) time of
                     Inl message \<Rightarrow> Inl (''Failed to get answer: '' @ message)
                   | Inr response \<Rightarrow> Inr response)
          \<and> body_stream (request_body (requestOptions systemPrompt options question)) = Some True)
   \<and> (stream options = Some True \<and> onStreamUpdate options
      \<longrightarrow> getAnswer systemPrompt options question fetch time
            = (fst (streamResponse options (fetch (requestOptions systemPrompt options question)) time),
               case snd (streamResponse options
                           (fetch (requestOptions systemPrompt options question)) time) of
                 Inl message \<Rightarrow> Inl (''Failed to get answer: '' @ message)
               | Inr response \<Rightarrow> Inr response))
   \<and> (stream options \<noteq> Some True
      \<longrightarrow> getAnswer systemPrompt options question fetch time
            = ([], case standardResponse (fetch (requestOptions systemPrompt options question)) time of
                     Inl message \<Rightarrow> Inl (''Failed to get answer: '' @ message)
                   | Inr response \<Rightarrow> Inr response))
   \<and> (\<forall>result. snd (getAnswer systemPrompt options question fetch time) = Inr result
        \<longrightarrow> (source result = ''openai-stream''
             \<longleftrightarrow> stream options = Some True \<and> onStreamUpdate options))"
proof (intro conjI impI allI)
  assume "stream options = Some True \<and> \<not> onStreamUpdate options"
  then show "getAnswer systemPrompt options question fetch time
            = ([], case standardResponse (fetch (requestOptions systemPrompt options question)) time of
                     Inl message \<Rightarrow> Inl (''Failed to get answer: '' @ message)
                   | Inr response \<Rightarrow> Inr response)"
    by (intro getAnswer_standard) simp
next
  assume "stream options = Some True \<and> \<not> onStreamUpdate options"
  then show "body_stream (request_body (requestOptions systemPrompt options question)) = Some True"
    by (simp add: requestOptions_def)
next
  assume "stream options = Some True \<and> onStreamUpdate options"
  then show "getAnswer systemPrompt options question fetch time
            = (fst (streamResponse options (fetch (requestOptions systemPrompt options question)) time),
               case snd (streamResponse options
                           (fetch (requestOptions systemPrompt options question)) time) of
                 Inl message \<Rightarrow> Inl (''Failed to get answer: '' @ message)
               | Inr response \<Rightarrow> Inr response)"
    by (intro getAnswer_streaming) simp_all
next
  assume "stream options \<noteq> Some True"
  then show "getAnswer systemPrompt options question fetch time
            = ([], case standardResponse (fetch (requestOptions systemPrompt options question)) time of
                     Inl message \<Rightarrow> Inl (''Failed to get answer: '' @ message)
                   | Inr response \<Rightarrow> Inr response)"
    by (intro getAnswer_standard) simp
next
  fix result
  assume r: "snd (getAnswer systemPrompt options question fetch time) = Inr result"
  let ?fetched = "fetch (requestOptions systemPrompt options question)"
  show "source result = ''openai-stream'' \<longleftrightarrow> stream options = Some True \<and> onStreamUpdate options"
  proof (cases "stream options = Some True \<and> onStreamUpdate options")
    case True
    then have "snd (streamResponse options ?fetched time) = Inr result"
      using r getAnswer_streaming[of options systemPrompt question fetch time]
      by (cases "snd (streamResponse options ?fetched time)") simp_all
    then have "source result = ''openai-stream''"
      by (rule streamResponse_source)
    with True show ?thesis
      by simp
  next
    case False
    then have "standardResponse ?fetched time = Inr result"
      using r getAnswer_standard[of options systemPrompt question fetch time]
      by (cases "standardResponse ?fetched time") simp_all
    then have "source result = ''openai''"
      by (rule standardResponse_source)
    with False show ?thesis
      by simp
  qed
qed

theorem stream_without_callback_is_standard_witness:
  "OpenAIService_new \<lparr> apiKey = Some ''sk-test'', model = None, maxTokens = None,
       temperature = None, stream = None, onStreamUpdate = False \<rparr>
     = Inr \<lparr> apiKey = Some ''sk-test'', model = Some ''gpt-4o-mini'', maxTokens = Some 300,
             temperature = Some 0.3, stream = Some True, onStreamUpdate = False \<rparr>
   \<and> getAnswer [] \<lparr> apiKey = Some ''sk-test'', model = Some ''gpt-4o-mini'', maxTokens = Some 300,
             temperature = Some 0.3, stream = Some True, onStreamUpdate = False \<rparr>
        ''What is docker?'' (\<lambda>request. Resolved \<lparr> status = 200, body = Some [body_Hi] \<rparr>) 42
     = ([], Inr \<lparr> answer = ''Hi'', responseTime = 42, source = ''openai'' \<rparr>)
   \<and> getAnswer [] \<lparr> apiKey = Some ''sk-test'', model = Some ''gpt-4o-mini'', maxTokens = Some 300,
             temperature = Some 0.3, stream = Some True, onStreamUpdate = False \<rparr>
        ''What is docker?'' (\<lambda>request. Resolved \<lparr> status = 200, body = Some [line_Hel] \<rparr>) 42
     = ([], Inl (''Failed to get answer: '' @ SyntaxError_message))"
proof -
  let ?options = "\<lparr> apiKey = Some ''sk-test'', model = Some ''gpt-4o-mini'', maxTokens = Some 300,
             temperature = Some 0.3, stream = Some True, onStreamUpdate = False \<rparr>"
  have new: "OpenAIService_new \<lparr> apiKey = Some ''sk-test'', model = None, maxTokens = None,
       temperature = None, stream = None, onStreamUpdate = False \<rparr> = Inr ?options"
    by (simp add: OpenAIService_new_def LLMService_new_def or_default_def)
  have std1: "standardResponse (Resolved \<lparr> status = 200, body = Some [body_Hi] \<rparr>) 42
      = Inr \<lparr> answer = ''Hi'', responseTime = 42, source = ''openai'' \<rparr>"
    by code_simp
  have std2: "standardResponse (Resolved \<lparr> status = 200, body = Some [line_Hel] \<rparr>) 42
      = Inl SyntaxError_message"
    by code_simp
  have pre: "stream ?options = Some True \<and> \<not> onStreamUpdate ?options"
    by simp
  show ?thesis
    using new pre std1 std2
      stream_without_callback_is_standard[where options = ?options and systemPrompt = "[]"
        and question = "''What is docker?''" and time = 42
        and fetch = "\<lambda>request. Resolved \<lparr> status = 200, body = Some [body_Hi] \<rparr>"]
      stream_without_callback_is_standard[where options = ?options and systemPrompt = "[]"
        and question = "''What is docker?''" and time = 42
        and fetch = "\<lambda>request. Resolved \<lparr> status = 200, body = Some [line_Hel] \<rparr>"]
    by simp
qed

end
